theory Spec2Isabelle
  imports Complex_Main
begin

section \<open>JSON values, exceptions and the Python operations the proxies use\<close>

text \<open>
  All three proxies (\<^verbatim>\<open>lightweight-proxy.py\<close>, \<^verbatim>\<open>model-downloader-proxy.py\<close>,
  \<^verbatim>\<open>proxy-wrapper.py\<close>) work on the loosely typed value of \<^verbatim>\<open>request.json\<close>. A dict
  is an association list read with \<open>map_of\<close>; Python's \<^verbatim>\<open>None\<close> is \<open>JNull\<close>. A float is
  represented by the number its literal denotes: the code only passes floats through
  or supplies them as default literals.
\<close>

datatype json =
    JNull
  | JBool bool
  | JInt int
  | JFloat real
  | JStr string
  | JArr "json list"
  | JObj "(string \<times> json) list"

text \<open>
  Exceptions are values. Only subclasses of \<^verbatim>\<open>Exception\<close> are modelled; the class decides
  which \<^verbatim>\<open>except\<close> clause catches, the string is \<^verbatim>\<open>str(e)\<close>. \<open>ConnectionError\<close>,
  \<open>Timeout\<close> and \<open>RequestException\<close> (any other one) are the classes of
  \<^verbatim>\<open>requests.exceptions\<close>.
\<close>

datatype exn_class =
    ConnectionError
  | Timeout
  | RequestException
  | HfHubHTTPError
  | AttributeError
  | TypeError
  | OtherException

datatype exn = Exn (cls: exn_class) (str_of: string)

fun is_request_exception :: "exn \<Rightarrow> bool" where
  "is_request_exception (Exn ConnectionError _) = True"
| "is_request_exception (Exn Timeout _) = True"
| "is_request_exception (Exn RequestException _) = True"
| "is_request_exception (Exn _ _) = False"

definition bind_exn :: "exn + 'a \<Rightarrow> ('a \<Rightarrow> exn + 'b) \<Rightarrow> exn + 'b" where
  "bind_exn r f = (case r of Inl e \<Rightarrow> Inl e | Inr v \<Rightarrow> f v)"

text \<open>The operations on which the Python runtime itself raises, with their operands.\<close>

datatype fault =
    NoAttribute json string
  | NotContainer json
  | NotIterable json
  | Unhashable json
  | BadOperands json json

text \<open>
  What the Python runtime supplies and the sources do not fix: \<^verbatim>\<open>str()\<close> of a value
  that is not a string, the message of an exception the runtime raises, \<^verbatim>\<open>hash()\<close> of
  a hashable value, the clock \<^verbatim>\<open>int(time.time())\<close> and floating-point addition.
\<close>

record env =
  str_other :: "json \<Rightarrow> string"
  fault_text :: "fault \<Rightarrow> string"
  hash_val :: "json \<Rightarrow> int"
  now :: int
  float_add :: "real \<Rightarrow> real \<Rightarrow> real"

abbreviation nl :: string where
  "nl \<equiv> [CHR 0x0A]"

text \<open>Truth value of a JSON value in \<^verbatim>\<open>if x\<close> and \<^verbatim>\<open>not x\<close>.\<close>

fun truthy :: "json \<Rightarrow> bool" where
  "truthy JNull = False"
| "truthy (JBool b) = b"
| "truthy (JInt i) = (i \<noteq> 0)"
| "truthy (JFloat r) = (r \<noteq> 0)"
| "truthy (JStr s) = (s \<noteq> [])"
| "truthy (JArr xs) = (xs \<noteq> [])"
| "truthy (JObj kv) = (kv \<noteq> [])"

text \<open>\<^verbatim>\<open>str(x)\<close>, as an f-string applies it to a substituted value.\<close>

fun py_str :: "env \<Rightarrow> json \<Rightarrow> string" where
  "py_str env (JStr s) = s"
| "py_str env v = str_other env v"

definition get_or :: "(string \<times> json) list \<Rightarrow> string \<Rightarrow> json \<Rightarrow> json" where
  "get_or kv k dflt = (case map_of kv k of None \<Rightarrow> dflt | Some v \<Rightarrow> v)"

text \<open>\<^verbatim>\<open>x.get(k, dflt)\<close>: only a dict has the method.\<close>

fun dict_get :: "env \<Rightarrow> json \<Rightarrow> string \<Rightarrow> json \<Rightarrow> exn + json" where
  "dict_get env (JObj kv) k dflt = Inr (get_or kv k dflt)"
| "dict_get env v k dflt = Inl (Exn AttributeError (fault_text env (NoAttribute v ''get'')))"

fun is_substring :: "string \<Rightarrow> string \<Rightarrow> bool" where
  "is_substring k [] = (k = [])"
| "is_substring k (c # s) = (take (length k) (c # s) = k \<or> is_substring k s)"

text \<open>\<^verbatim>\<open>k in x\<close> for a string \<open>k\<close>: key of a dict, element of a list, substring of a string.\<close>

fun contains :: "env \<Rightarrow> json \<Rightarrow> string \<Rightarrow> exn + bool" where
  "contains env (JObj kv) k = Inr (map_of kv k \<noteq> None)"
| "contains env (JArr xs) k = Inr (JStr k \<in> set xs)"
| "contains env (JStr s) k = Inr (is_substring k s)"
| "contains env v k = Inl (Exn TypeError (fault_text env (NotContainer v)))"

text \<open>The items a \<^verbatim>\<open>for\<close> loop visits.\<close>

fun py_iter :: "env \<Rightarrow> json \<Rightarrow> exn + json list" where
  "py_iter env (JArr xs) = Inr xs"
| "py_iter env (JObj kv) = Inr (map (\<lambda>p. JStr (fst p)) kv)"
| "py_iter env (JStr s) = Inr (map (\<lambda>c. JStr [c]) s)"
| "py_iter env v = Inl (Exn TypeError (fault_text env (NotIterable v)))"

text \<open>A list comprehension whose element expression can raise: the first exception wins.\<close>

fun map_exn :: "('a \<Rightarrow> exn + 'b) \<Rightarrow> 'a list \<Rightarrow> exn + 'b list" where
  "map_exn f [] = Inr []"
| "map_exn f (x # xs) =
     (case f x of Inl e \<Rightarrow> Inl e
      | Inr y \<Rightarrow> (case map_exn f xs of Inl e \<Rightarrow> Inl e | Inr ys \<Rightarrow> Inr (y # ys)))"

text \<open>\<^verbatim>\<open>sep.join(xs)\<close>.\<close>

fun str_join :: "string \<Rightarrow> string list \<Rightarrow> string" where
  "str_join sep [] = []"
| "str_join sep [x] = x"
| "str_join sep (x # y # ys) = x @ sep @ str_join sep (y # ys)"

text \<open>\<^verbatim>\<open>hash(x)\<close>: lists and dicts are unhashable.\<close>

fun py_hash :: "env \<Rightarrow> json \<Rightarrow> exn + int" where
  "py_hash env (JArr xs) = Inl (Exn TypeError (fault_text env (Unhashable (JArr xs))))"
| "py_hash env (JObj kv) = Inl (Exn TypeError (fault_text env (Unhashable (JObj kv))))"
| "py_hash env v = Inr (hash_val env v)"

text \<open>
  \<^verbatim>\<open>a + b\<close>: integers (a bool counts as 0 or 1) add exactly, a float operand makes the
  sum a float, strings and lists concatenate, anything else raises.
\<close>

fun as_int :: "json \<Rightarrow> int option" where
  "as_int (JBool b) = Some (if b then 1 else 0)"
| "as_int (JInt i) = Some i"
| "as_int v = None"

fun as_float :: "json \<Rightarrow> real option" where
  "as_float (JFloat r) = Some r"
| "as_float v = map_option real_of_int (as_int v)"

fun py_add :: "env \<Rightarrow> json \<Rightarrow> json \<Rightarrow> exn + json" where
  "py_add env (JStr s) (JStr t) = Inr (JStr (s @ t))"
| "py_add env (JArr xs) (JArr ys) = Inr (JArr (xs @ ys))"
| "py_add env a b =
     (case (as_int a, as_int b) of
        (Some i, Some j) \<Rightarrow> Inr (JInt (i + j))
      | _ \<Rightarrow>
        (case (as_float a, as_float b) of
           (Some x, Some y) \<Rightarrow> Inr (JFloat (float_add env x y))
         | _ \<Rightarrow> Inl (Exn TypeError (fault_text env (BadOperands a b)))))"

section \<open>Backend client\<close>

text \<open>
  What the code reads of a \<^verbatim>\<open>requests\<close> response: \<^verbatim>\<open>resp.status_code\<close>, the outcome of
  \<^verbatim>\<open>resp.json()\<close>, and for a streamed response the chunks of \<^verbatim>\<open>resp.iter_content\<close> or
  the lines of \<^verbatim>\<open>resp.iter_lines\<close>, each a list of items delivered followed, when the
  connection breaks, by the exception raised.
\<close>

record http_response =
  status_code :: int
  json_body :: "exn + json"
  iter_content :: "string list \<times> exn option"
  iter_lines :: "string list \<times> exn option"

text \<open>
  \<^verbatim>\<open>requests.post(f"{SHIMMY_URL}/api/generate", json=payload, stream=flag, timeout=300)\<close>
  as a function of the payload and of the \<^verbatim>\<open>stream\<close> flag of the call (absent means
  \<open>False\<close>, a buffered call); \<^verbatim>\<open>requests.get(f"{SHIMMY_URL}{path}", timeout=5)\<close> as a
  function of the path.
\<close>

type_synonym post_fn = "json \<Rightarrow> bool \<Rightarrow> exn + http_response"

type_synonym get_fn = "string \<Rightarrow> exn + http_response"

text \<open>The output of a response generator: the chunks it yields, and the exception that
  leaves it, if one does.\<close>

record stream_out =
  chunks :: "string list"
  raised :: "exn option"

text \<open>
  What a route gives the transport layer: a JSON body with a status code, a streamed
  response with its mimetype, or an exception that no \<^verbatim>\<open>except\<close> clause of the route
  catches.
\<close>

datatype response =
    Reply int json
  | Streamed string stream_out
  | Unhandled exn

section \<open>Schema translator\<close>

text \<open>
  \<^verbatim>\<open>f"{msg.get('role', 'user')}: {msg.get('content', '')}"\<close>, the element expression of
  the comprehension in \<^verbatim>\<open>v1_completions\<close>.
\<close>

definition message_line :: "env \<Rightarrow> json \<Rightarrow> exn + string" where
  "message_line env msg =
     bind_exn (dict_get env msg ''role'' (JStr ''user'')) (\<lambda>role.
     bind_exn (dict_get env msg ''content'' (JStr [])) (\<lambda>content.
     Inr (py_str env role @ '': '' @ py_str env content)))"

text \<open>
  The prompt extraction of \<^verbatim>\<open>v1_completions\<close>, the same text in all three files
  (\<^verbatim>\<open>lightweight-proxy.py\<close> 119-127, \<^verbatim>\<open>model-downloader-proxy.py\<close> 266-272,
  \<^verbatim>\<open>proxy-wrapper.py\<close> 43-51). The prompt is a JSON value: without \<^verbatim>\<open>messages\<close> the
  \<^verbatim>\<open>prompt\<close> field is taken as it is, whatever its type.
\<close>

definition extract_prompt :: "env \<Rightarrow> json \<Rightarrow> exn + json" where
  "extract_prompt env data =
     bind_exn (contains env data ''messages'') (\<lambda>has_messages.
       if has_messages then
         bind_exn (dict_get env data ''messages'' (JArr [])) (\<lambda>msgs.
         bind_exn (py_iter env msgs) (\<lambda>items.
         bind_exn (map_exn (message_line env) items) (\<lambda>lines.
         Inr (JStr (str_join nl lines)))))
       else dict_get env data ''prompt'' (JStr []))"

text \<open>
  \<^verbatim>\<open>shimmy_request\<close> of \<^verbatim>\<open>lightweight-proxy.py\<close> (130-136) and of
  \<^verbatim>\<open>model-downloader-proxy.py\<close> (274-280): five fields.
\<close>

definition shimmy_request :: "env \<Rightarrow> json \<Rightarrow> json \<Rightarrow> exn + (string \<times> json) list" where
  "shimmy_request env data prompt =
     bind_exn (dict_get env data ''model'' (JStr [])) (\<lambda>model_v.
     bind_exn (dict_get env data ''stream'' (JBool False)) (\<lambda>stream_v.
     bind_exn (dict_get env data ''temperature'' (JFloat 0.7)) (\<lambda>temperature_v.
     bind_exn (dict_get env data ''max_tokens'' (JInt 512)) (\<lambda>max_tokens_v.
     Inr [(''model'', model_v),
          (''prompt'', prompt),
          (''stream'', stream_v),
          (''temperature'', temperature_v),
          (''max_tokens'', max_tokens_v)]))))"

text \<open>\<^verbatim>\<open>shimmy_request\<close> of \<^verbatim>\<open>proxy-wrapper.py\<close> (54-63): eight fields.\<close>

definition wrapper_shimmy_request ::
  "env \<Rightarrow> json \<Rightarrow> json \<Rightarrow> exn + (string \<times> json) list" where
  "wrapper_shimmy_request env data prompt =
     bind_exn (dict_get env data ''model'' (JStr ''phi3-lora'')) (\<lambda>model_v.
     bind_exn (dict_get env data ''stream'' (JBool False)) (\<lambda>stream_v.
     bind_exn (dict_get env data ''temperature'' (JFloat 0.7)) (\<lambda>temperature_v.
     bind_exn (dict_get env data ''max_tokens'' (JInt 512)) (\<lambda>max_tokens_v.
     bind_exn (dict_get env data ''top_p'' (JFloat 1.0)) (\<lambda>top_p_v.
     bind_exn (dict_get env data ''frequency_penalty'' (JFloat 0.0)) (\<lambda>frequency_penalty_v.
     bind_exn (dict_get env data ''presence_penalty'' (JFloat 0.0)) (\<lambda>presence_penalty_v.
     Inr [(''model'', model_v),
          (''prompt'', prompt),
          (''stream'', stream_v),
          (''temperature'', temperature_v),
          (''max_tokens'', max_tokens_v),
          (''top_p'', top_p_v),
          (''frequency_penalty'', frequency_penalty_v),
          (''presence_penalty'', presence_penalty_v)])))))))"

text \<open>The chat envelope of \<^verbatim>\<open>proxy-wrapper.py\<close> (95-113), its entries evaluated in order.\<close>

definition chat_envelope :: "env \<Rightarrow> json \<Rightarrow> json \<Rightarrow> exn + json" where
  "chat_envelope env data shimmy_resp =
     bind_exn (dict_get env shimmy_resp ''response'' (JStr [])) (\<lambda>hashed.
     bind_exn (py_hash env hashed) (\<lambda>h.
     bind_exn (dict_get env data ''model'' (JStr ''phi3-lora'')) (\<lambda>model_v.
     bind_exn (dict_get env shimmy_resp ''response'' (JStr [])) (\<lambda>content.
     bind_exn (dict_get env shimmy_resp ''prompt_eval_count'' (JInt 0)) (\<lambda>prompt_tokens.
     bind_exn (dict_get env shimmy_resp ''eval_count'' (JInt 0)) (\<lambda>completion_tokens.
     bind_exn (dict_get env shimmy_resp ''prompt_eval_count'' (JInt 0)) (\<lambda>a.
     bind_exn (dict_get env shimmy_resp ''eval_count'' (JInt 0)) (\<lambda>b.
     bind_exn (py_add env a b) (\<lambda>total_tokens.
     Inr (JObj
       [(''id'', JStr (''chatcmpl-'' @ py_str env (JInt h))),
        (''object'', JStr ''chat.completion''),
        (''created'', JInt (now env)),
        (''model'', model_v),
        (''choices'', JArr [JObj
           [(''index'', JInt 0),
            (''message'', JObj [(''role'', JStr ''assistant''), (''content'', content)]),
            (''finish_reason'', JStr ''stop'')]]),
        (''usage'', JObj
           [(''prompt_tokens'', prompt_tokens),
            (''completion_tokens'', completion_tokens),
            (''total_tokens'', total_tokens)])]))))))))))"

text \<open>The text-completion envelope of \<^verbatim>\<open>proxy-wrapper.py\<close> (116-126).\<close>

definition text_envelope :: "env \<Rightarrow> json \<Rightarrow> json \<Rightarrow> exn + json" where
  "text_envelope env data shimmy_resp =
     bind_exn (dict_get env shimmy_resp ''response'' (JStr [])) (\<lambda>hashed.
     bind_exn (py_hash env hashed) (\<lambda>h.
     bind_exn (dict_get env data ''model'' (JStr ''phi3-lora'')) (\<lambda>model_v.
     bind_exn (dict_get env shimmy_resp ''response'' (JStr [])) (\<lambda>text_v.
     Inr (JObj
       [(''id'', JStr (''cmpl-'' @ py_str env (JInt h))),
        (''object'', JStr ''text_completion''),
        (''created'', JInt (now env)),
        (''model'', model_v),
        (''choices'', JArr [JObj
           [(''text'', text_v),
            (''index'', JInt 0),
            (''finish_reason'', JStr ''stop'')]])])))))"

section \<open>Routes of the raw-JSON variants\<close>

text \<open>
  \<^verbatim>\<open>lightweight-proxy.py\<close> and \<^verbatim>\<open>model-downloader-proxy.py\<close> have the same text for
  \<^verbatim>\<open>v1_health\<close>, \<^verbatim>\<open>v1_generate\<close> and \<^verbatim>\<open>v1_completions\<close>. The argument \<open>req\<close> of a
  POST route is the outcome of \<^verbatim>\<open>request.json\<close>: the parsed body, or the exception Flask
  raises for a body it does not accept.
\<close>

definition v1_health :: "get_fn \<Rightarrow> response" where
  "v1_health get =
     (case bind_exn (get ''/health'') (\<lambda>resp.
           bind_exn (json_body resp) (\<lambda>body.
           Inr (Reply (status_code resp) body))) of
        Inr r \<Rightarrow> r
      | Inl e \<Rightarrow>
          if is_request_exception e
          then Reply 503 (JObj [(''status'', JStr ''unhealthy''), (''error'', JStr (str_of e))])
          else Unhandled e)"

definition error_reply :: "exn \<Rightarrow> response" where
  "error_reply e = Reply 500 (JObj [(''error'', JStr (str_of e))])"

text \<open>The \<^verbatim>\<open>try\<close> block of the generator in \<^verbatim>\<open>v1_generate\<close>: what it yields and the
  exception that ends it, if any.\<close>

definition v1_generate_generate_try :: "post_fn \<Rightarrow> json \<Rightarrow> string list \<times> exn option" where
  "v1_generate_generate_try post data =
     (case post data True of
        Inl e \<Rightarrow> ([], Some e)
      | Inr resp \<Rightarrow> (filter (\<lambda>chunk. chunk \<noteq> []) (fst (iter_content resp)),
                     snd (iter_content resp)))"

text \<open>The generator: the \<^verbatim>\<open>except Exception\<close> clause yields one more chunk.\<close>

definition v1_generate_generate :: "post_fn \<Rightarrow> json \<Rightarrow> stream_out" where
  \<open>v1_generate_generate post data =
     (case v1_generate_generate_try post data of
        (out, None) \<Rightarrow> \<lparr>chunks = out, raised = None\<rparr>
      | (out, Some e) \<Rightarrow>
          \<lparr>chunks = out @ [''{"error": "'' @ str_of e @ ''"}'' @ nl], raised = None\<rparr>)\<close>

definition v1_generate :: "env \<Rightarrow> post_fn \<Rightarrow> exn + json \<Rightarrow> response" where
  "v1_generate env post req =
     (case bind_exn req (\<lambda>data.
           bind_exn (dict_get env data ''model'' (JStr ''unknown'')) (\<lambda>logged.
           bind_exn (dict_get env data ''stream'' (JBool False)) (\<lambda>is_stream.
           if truthy is_stream
           then Inr (Streamed ''application/x-ndjson'' (v1_generate_generate post data))
           else
             bind_exn (post data False) (\<lambda>resp.
             bind_exn (json_body resp) (\<lambda>body.
             Inr (Reply (status_code resp) body)))))) of
        Inr r \<Rightarrow> r
      | Inl e \<Rightarrow> error_reply e)"

definition v1_completions :: "env \<Rightarrow> post_fn \<Rightarrow> exn + json \<Rightarrow> response" where
  "v1_completions env post req =
     (case bind_exn req (\<lambda>data.
           bind_exn (extract_prompt env data) (\<lambda>prompt.
           bind_exn (shimmy_request env data prompt) (\<lambda>fields.
           bind_exn (post (JObj fields) False) (\<lambda>resp.
           bind_exn (json_body resp) (\<lambda>body.
           Inr (Reply (status_code resp) body)))))) of
        Inr r \<Rightarrow> r
      | Inl e \<Rightarrow> error_reply e)"

section \<open>Routes of the response-transforming variant\<close>

text \<open>\<^verbatim>\<open>proxy-wrapper.py\<close>: \<^verbatim>\<open>v1_health\<close> (20-29) and \<^verbatim>\<open>v1_completions\<close> (31-139).\<close>

definition wrapper_v1_health :: "get_fn \<Rightarrow> response" where
  "wrapper_v1_health get =
     (case bind_exn (get ''/health'') (\<lambda>resp.
           bind_exn (json_body resp) (\<lambda>body.
           Inr (Reply (status_code resp) body))) of
        Inr r \<Rightarrow> r
      | Inl e \<Rightarrow> Reply 503 (JObj [(''status'', JStr ''error''), (''message'', JStr (str_of e))]))"

definition wrapper_error_reply :: "exn \<Rightarrow> response" where
  "wrapper_error_reply e =
     Reply 500 (JObj [(''error'', JObj
       [(''message'', JStr (str_of e)),
        (''type'', JStr ''internal_error''),
        (''code'', JStr ''proxy_error'')])])"

text \<open>The generator of the streaming branch (69-78): no \<^verbatim>\<open>try\<close>, so an exception of the
  backend call leaves the generator.\<close>

definition wrapper_generate :: "post_fn \<Rightarrow> json \<Rightarrow> stream_out" where
  "wrapper_generate post payload =
     (case post payload True of
        Inl e \<Rightarrow> \<lparr>chunks = [], raised = Some e\<rparr>
      | Inr resp \<Rightarrow>
          \<lparr>chunks = map (\<lambda>line. line @ nl) (filter (\<lambda>line. line \<noteq> []) (fst (iter_lines resp))),
           raised = snd (iter_lines resp)\<rparr>)"

definition wrapper_v1_completions :: "env \<Rightarrow> post_fn \<Rightarrow> exn + json \<Rightarrow> response" where
  "wrapper_v1_completions env post req =
     (case bind_exn req (\<lambda>data.
           bind_exn (dict_get env data ''model'' JNull) (\<lambda>logged.
           bind_exn (extract_prompt env data) (\<lambda>prompt.
           bind_exn (wrapper_shimmy_request env data prompt) (\<lambda>fields.
           if truthy (get_or fields ''stream'' JNull)
           then Inr (Streamed ''text/event-stream'' (wrapper_generate post (JObj fields)))
           else
             bind_exn (post (JObj fields) False) (\<lambda>resp.
             bind_exn (json_body resp) (\<lambda>shimmy_resp.
             bind_exn (contains env data ''messages'') (\<lambda>has_messages.
             bind_exn (if has_messages then chat_envelope env data shimmy_resp
                       else text_envelope env data shimmy_resp) (\<lambda>openai_resp.
             Inr (Reply (status_code resp) openai_resp))))))))) of
        Inr r \<Rightarrow> r
      | Inl e \<Rightarrow> wrapper_error_reply e)"

section \<open>Download coordinator\<close>

text \<open>\<^verbatim>\<open>current_download\<close> (31-35); \<^verbatim>\<open>None\<close> is \<open>JNull\<close>.\<close>

record download_job =
  in_progress :: bool
  model :: json
  filename :: json

definition no_download :: download_job where
  "no_download = \<lparr>in_progress = False, model = JNull, filename = JNull\<rparr>"

text \<open>
  The world outside the process, as the outcomes of the calls \<^verbatim>\<open>pull_model\<close> makes:
  \<^verbatim>\<open>os.makedirs\<close>, \<^verbatim>\<open>hf_hub_download\<close> (the local path on success), opening and reading
  a file (its bytes), \<^verbatim>\<open>os.remove\<close>, \<^verbatim>\<open>os.path.getsize\<close>, \<^verbatim>\<open>shimmy discover\<close> (its
  return code), \<^verbatim>\<open>pgrep -f 'shimmy serve'\<close> (its return code and what
  \<^verbatim>\<open>int(stdout.strip().split('\n')[0])\<close> gives: \<open>None\<close> when the stripped output is empty,
  else the pid or the exception of \<^verbatim>\<open>int\<close>). The outcome of \<^verbatim>\<open>kill -TERM\<close> changes
  nothing: the function returns \<open>True\<close> whether it raises or not.
\<close>

record world =
  os_makedirs :: "exn option"
  hf_hub_download :: "json \<Rightarrow> json \<Rightarrow> exn + string"
  file_bytes :: "string \<Rightarrow> exn + string"
  os_remove :: "string \<Rightarrow> exn option"
  os_path_getsize :: "string \<Rightarrow> exn + nat"
  run_discover :: "exn + int"
  run_pgrep :: "exn + int \<times> (exn + int) option"

text \<open>The calls made on the world, in order.\<close>

datatype action =
    Makedirs
  | Download json json
  | OpenRead string
  | Remove string
  | Getsize string
  | Discover
  | Pgrep
  | Kill int

text \<open>
  The lines the generator yields. \<open>Complete\<close> carries the size in bytes; the line shows
  \<^verbatim>\<open>round(file_size / (1024 * 1024), 2)\<close>.
\<close>

datatype event =
    Starting json json
  | Complete json string nat bool
  | Error string

fun is_complete :: "event \<Rightarrow> bool" where
  "is_complete (Complete f p n d) = True"
| "is_complete ev = False"

fun is_error :: "event \<Rightarrow> bool" where
  "is_error (Error m) = True"
| "is_error ev = False"

definition check_gguf_file :: "world \<Rightarrow> string \<Rightarrow> bool" where
  "check_gguf_file w filepath =
     (case file_bytes w filepath of
        Inl e \<Rightarrow> False
      | Inr content \<Rightarrow> take 4 content = ''GGUF'' \<or> take 4 content = ''GGML'')"

definition trigger_shimmy_discover_and_restart :: "world \<Rightarrow> bool \<times> action list" where
  "trigger_shimmy_discover_and_restart w =
     (case run_discover w of
        Inl e \<Rightarrow> (False, [Discover])
      | Inr returncode \<Rightarrow>
          if returncode \<noteq> 0 then (False, [Discover])
          else
            (case run_pgrep w of
               Inl e \<Rightarrow> (True, [Discover, Pgrep])
             | Inr (rc, None) \<Rightarrow> (True, [Discover, Pgrep])
             | Inr (rc, Some (Inl e)) \<Rightarrow> (True, [Discover, Pgrep])
             | Inr (rc, Some (Inr pid)) \<Rightarrow>
                 if rc = 0 then (True, [Discover, Pgrep, Kill pid])
                 else (True, [Discover, Pgrep])))"

text \<open>The \<^verbatim>\<open>try\<close> block of the generator in \<^verbatim>\<open>pull_model\<close> (130-164): the exception that
  ends it, if any, the events yielded and the calls made.\<close>

definition pull_model_generate_try ::
  "world \<Rightarrow> json \<Rightarrow> json \<Rightarrow> exn option \<times> event list \<times> action list" where
  "pull_model_generate_try w model_repo fname =
     (case os_makedirs w of
        Some e \<Rightarrow> (Some e, [Starting model_repo fname], [Makedirs])
      | None \<Rightarrow>
        (case hf_hub_download w model_repo fname of
           Inl e \<Rightarrow> (Some e, [Starting model_repo fname], [Makedirs, Download model_repo fname])
         | Inr local_path \<Rightarrow>
             if \<not> check_gguf_file w local_path then
               (case os_remove w local_path of
                  Some e \<Rightarrow>
                    (Some e, [Starting model_repo fname],
                     [Makedirs, Download model_repo fname, OpenRead local_path,
                      Remove local_path])
                | None \<Rightarrow>
                    (None,
                     [Starting model_repo fname,
                      Error ''Downloaded file is not a valid GGUF/GGML model''],
                     [Makedirs, Download model_repo fname, OpenRead local_path,
                      Remove local_path]))
             else
               (case os_path_getsize w local_path of
                  Inl e \<Rightarrow>
                    (Some e, [Starting model_repo fname],
                     [Makedirs, Download model_repo fname, OpenRead local_path,
                      Getsize local_path])
                | Inr file_size \<Rightarrow>
                    (None,
                     [Starting model_repo fname,
                      Complete fname local_path file_size
                        (fst (trigger_shimmy_discover_and_restart w))],
                     [Makedirs, Download model_repo fname, OpenRead local_path,
                      Getsize local_path] @ snd (trigger_shimmy_discover_and_restart w)))))"

text \<open>The two \<^verbatim>\<open>except\<close> clauses (166-173).\<close>

definition failure_event :: "exn \<Rightarrow> event" where
  "failure_event e =
     (if cls e = HfHubHTTPError then Error (''HuggingFace error: '' @ str_of e)
      else Error (''Download failed: '' @ str_of e))"

record download_run =
  events :: "event list"
  actions :: "action list"
  job :: download_job

text \<open>
  The generator run to its end, from the state \<open>st\<close> of \<^verbatim>\<open>current_download\<close>: the
  \<^verbatim>\<open>finally\<close> clause (174-179) assigns the three fields.
\<close>

definition pull_model_generate :: "world \<Rightarrow> json \<Rightarrow> json \<Rightarrow> download_job \<Rightarrow> download_run" where
  "pull_model_generate w model_repo fname st =
     (case pull_model_generate_try w model_repo fname of
        (raised_exn, evs, acts) \<Rightarrow>
          \<lparr>events = evs @ (case raised_exn of None \<Rightarrow> [] | Some e \<Rightarrow> [failure_event e]),
           actions = acts,
           job = st\<lparr>in_progress := False, model := JNull, filename := JNull\<rparr>\<rparr>)"

text \<open>What \<^verbatim>\<open>pull_model\<close> returns: a JSON reply with its status code, or the streamed
  response around the generator for a model and a file name.\<close>

datatype pull_result =
    PReply int json
  | PStream json json

text \<open>The outer \<^verbatim>\<open>except Exception\<close> clause (183-190).\<close>

definition pull_model_except :: "exn \<Rightarrow> download_job \<Rightarrow> pull_result \<times> download_job" where
  "pull_model_except e st =
     (PReply 500 (JObj [(''status'', JStr ''error''), (''error'', JStr (str_of e))]),
      st\<lparr>in_progress := False, model := JNull, filename := JNull\<rparr>)"

definition pull_model ::
  "env \<Rightarrow> exn + json \<Rightarrow> download_job \<Rightarrow> pull_result \<times> download_job" where
  "pull_model env req st =
     (case req of
        Inl e \<Rightarrow> pull_model_except e st
      | Inr data \<Rightarrow>
          if \<not> truthy data then
            (PReply 400 (JObj [(''status'', JStr ''error''),
                               (''error'', JStr ''Request body required'')]), st)
          else
            (case dict_get env data ''model'' JNull of
               Inl e \<Rightarrow> pull_model_except e st
             | Inr model_repo \<Rightarrow>
               (case dict_get env data ''filename'' JNull of
                  Inl e \<Rightarrow> pull_model_except e st
                | Inr fname \<Rightarrow>
                    if \<not> truthy model_repo \<or> \<not> truthy fname then
                      (PReply 400 (JObj [(''status'', JStr ''error''),
                         (''error'', JStr ''Both 'model' and 'filename' are required'')]), st)
                    else if in_progress st then
                      (PReply 409 (JObj [(''status'', JStr ''error''),
                         (''error'', JStr (''Download already in progress: '' @
                            py_str env (model st) @ ''/'' @ py_str env (filename st)))]), st)
                    else
                      (PStream model_repo fname,
                       st\<lparr>in_progress := True, model := model_repo, filename := fname\<rparr>))))"

fun proceeds :: "pull_result \<Rightarrow> bool" where
  "proceeds (PStream m f) = True"
| "proceeds (PReply c b) = False"

subsection \<open>Concurrent calls of \<^verbatim>\<open>pull_model\<close>\<close>

text \<open>
  The server runs one thread per request (\<^verbatim>\<open>threaded=True\<close>), so calls of
  \<^verbatim>\<open>pull_model\<close> interleave. A call is a sequence of atomic steps on the shared
  \<^verbatim>\<open>current_download\<close> and on \<^verbatim>\<open>download_lock\<close>; the program counter says where the
  call stands: in the checks of the body (101-112, which touch nothing shared), waiting
  for the lock (115), holding it at the test (116), at the reply of the conflict
  (117-120), at one of the three assignments (123-125), leaving the \<^verbatim>\<open>with\<close> block,
  in the \<^verbatim>\<open>except\<close> clause waiting for the lock (185) or at one of its three
  assignments (186-188), or returned. The steps of a call that runs alone add up to
  \<open>pull_model\<close> (lemma \<open>lone_call\<close>).
\<close>

datatype pull_pc =
    AtValidate "exn + json"
  | AtAcquire json json
  | AtCheck json json
  | AtConflict
  | AtSetInProgress json json
  | AtSetModel json json
  | AtSetFilename json json
  | AtRelease pull_result
  | AtExceptAcquire exn
  | AtExceptInProgress exn
  | AtExceptModel exn
  | AtExceptFilename exn
  | Returned pull_result

text \<open>
  One step of one call, on the lock (\<open>True\<close> when held), the job and the program counter
  of the call. A call that waits for a held lock does not move.
\<close>

fun pull_step :: "env \<Rightarrow> bool \<times> download_job \<times> pull_pc \<Rightarrow> bool \<times> download_job \<times> pull_pc" where
  "pull_step env (lk, st, AtValidate req) =
     (lk, st,
      (case req of
         Inl e \<Rightarrow> AtExceptAcquire e
       | Inr data \<Rightarrow>
           if \<not> truthy data then
             Returned (PReply 400 (JObj [(''status'', JStr ''error''),
                                         (''error'', JStr ''Request body required'')]))
           else
             (case dict_get env data ''model'' JNull of
                Inl e \<Rightarrow> AtExceptAcquire e
              | Inr model_repo \<Rightarrow>
                (case dict_get env data ''filename'' JNull of
                   Inl e \<Rightarrow> AtExceptAcquire e
                 | Inr fname \<Rightarrow>
                     if \<not> truthy model_repo \<or> \<not> truthy fname then
                       Returned (PReply 400 (JObj [(''status'', JStr ''error''),
                         (''error'', JStr ''Both 'model' and 'filename' are required'')]))
                     else AtAcquire model_repo fname))))"
| "pull_step env (lk, st, AtAcquire model_repo fname) =
     (if lk then (lk, st, AtAcquire model_repo fname)
      else (True, st, AtCheck model_repo fname))"
| "pull_step env (lk, st, AtCheck model_repo fname) =
     (lk, st, if in_progress st then AtConflict else AtSetInProgress model_repo fname)"
| "pull_step env (lk, st, AtConflict) =
     (lk, st,
      AtRelease (PReply 409 (JObj [(''status'', JStr ''error''),
        (''error'', JStr (''Download already in progress: '' @
           py_str env (model st) @ ''/'' @ py_str env (filename st)))])))"
| "pull_step env (lk, st, AtSetInProgress model_repo fname) =
     (lk, st\<lparr>in_progress := True\<rparr>, AtSetModel model_repo fname)"
| "pull_step env (lk, st, AtSetModel model_repo fname) =
     (lk, st\<lparr>model := model_repo\<rparr>, AtSetFilename model_repo fname)"
| "pull_step env (lk, st, AtSetFilename model_repo fname) =
     (lk, st\<lparr>filename := fname\<rparr>, AtRelease (PStream model_repo fname))"
| "pull_step env (lk, st, AtRelease r) = (False, st, Returned r)"
| "pull_step env (lk, st, AtExceptAcquire e) =
     (if lk then (lk, st, AtExceptAcquire e) else (True, st, AtExceptInProgress e))"
| "pull_step env (lk, st, AtExceptInProgress e) =
     (lk, st\<lparr>in_progress := False\<rparr>, AtExceptModel e)"
| "pull_step env (lk, st, AtExceptModel e) = (lk, st\<lparr>model := JNull\<rparr>, AtExceptFilename e)"
| "pull_step env (lk, st, AtExceptFilename e) =
     (lk, st\<lparr>filename := JNull\<rparr>,
      AtRelease (PReply 500 (JObj [(''status'', JStr ''error''), (''error'', JStr (str_of e))])))"
| "pull_step env (lk, st, Returned r) = (lk, st, Returned r)"

text \<open>
  Two calls side by side: the lock, the job, and the program counter of each. A
  schedule says which call takes the next step (\<open>True\<close> the first, \<open>False\<close> the second).
\<close>

type_synonym pull_conf = "bool \<times> download_job \<times> pull_pc \<times> pull_pc"

fun sched_step :: "env \<Rightarrow> pull_conf \<Rightarrow> bool \<Rightarrow> pull_conf" where
  "sched_step env (lk, st, p1, p2) tid =
     (if tid then
        (case pull_step env (lk, st, p1) of (lk', st', p1') \<Rightarrow> (lk', st', p1', p2))
      else
        (case pull_step env (lk, st, p2) of (lk', st', p2') \<Rightarrow> (lk', st', p1, p2')))"

definition run_schedule :: "env \<Rightarrow> bool list \<Rightarrow> pull_conf \<Rightarrow> pull_conf" where
  "run_schedule env sched c = foldl (sched_step env) c sched"

text \<open>Whether a call at this program counter holds the lock.\<close>

fun holds_lock :: "pull_pc \<Rightarrow> bool" where
  "holds_lock (AtValidate req) = False"
| "holds_lock (AtAcquire m f) = False"
| "holds_lock (AtExceptAcquire e) = False"
| "holds_lock (Returned r) = False"
| "holds_lock pc = True"

section \<open>Vocabulary of the properties\<close>

text \<open>
  The JSON form of a chat message \<open>{role, content}\<close>: an object whose \<^verbatim>\<open>role\<close> and
  \<^verbatim>\<open>content\<close> fields hold the two strings (other fields may be present).
\<close>

definition chat_message :: "json \<Rightarrow> string \<times> string \<Rightarrow> bool" where
  "chat_message msg rc =
     (case msg of
        JObj kv \<Rightarrow> map_of kv ''role'' = Some (JStr (fst rc)) \<and>
                   map_of kv ''content'' = Some (JStr (snd rc))
      | _ \<Rightarrow> False)"

definition chat_line :: "string \<times> string \<Rightarrow> string" where
  "chat_line rc = fst rc @ '': '' @ snd rc"

text \<open>A pull request body that passes the two checks of \<^verbatim>\<open>pull_model\<close> (102-112).\<close>

definition valid_pull :: "json \<Rightarrow> bool" where
  "valid_pull data =
     (case data of
        JObj kv \<Rightarrow> truthy (get_or kv ''model'' JNull) \<and> truthy (get_or kv ''filename'' JNull)
      | _ \<Rightarrow> False)"

text \<open>A field of a request body, \<open>JNull\<close> when it is missing.\<close>

definition dict_field :: "json \<Rightarrow> string \<Rightarrow> json" where
  "dict_field data k = (case data of JObj kv \<Rightarrow> get_or kv k JNull | _ \<Rightarrow> JNull)"

text \<open>A field of a translated request.\<close>

definition field_of :: "exn + (string \<times> json) list \<Rightarrow> string \<Rightarrow> json option" where
  "field_of r k = (case r of Inl e \<Rightarrow> None | Inr kvs \<Rightarrow> map_of kvs k)"

text \<open>The reply of the conflict (117-120) that names the request \<open>d\<close> as the job in flight.\<close>

definition conflict_reply :: "env \<Rightarrow> json \<Rightarrow> pull_result" where
  "conflict_reply env d =
     PReply 409 (JObj [(''status'', JStr ''error''),
       (''error'', JStr (''Download already in progress: '' @
          py_str env (dict_field d ''model'') @ ''/'' @ py_str env (dict_field d ''filename'')))])"

text \<open>
  The program counters a call with the valid body \<open>d\<close> can stand at when its only rival
  is the call with the body \<open>rival\<close>.
\<close>

definition call_at :: "env \<Rightarrow> json \<Rightarrow> json \<Rightarrow> pull_pc \<Rightarrow> bool" where
  "call_at env d rival pc =
     (pc \<in> set
       [AtValidate (Inr d),
        AtAcquire (dict_field d ''model'') (dict_field d ''filename''),
        AtCheck (dict_field d ''model'') (dict_field d ''filename''),
        AtConflict,
        AtSetInProgress (dict_field d ''model'') (dict_field d ''filename''),
        AtSetModel (dict_field d ''model'') (dict_field d ''filename''),
        AtSetFilename (dict_field d ''model'') (dict_field d ''filename''),
        AtRelease (PStream (dict_field d ''model'') (dict_field d ''filename'')),
        AtRelease (conflict_reply env rival),
        Returned (PStream (dict_field d ''model'') (dict_field d ''filename'')),
        Returned (conflict_reply env rival)])"

text \<open>
  A call that has found the job idle, a call that has found it busy, and what a call has
  assigned to the job so far.
\<close>

fun winner :: "pull_pc \<Rightarrow> bool" where
  "winner (AtSetInProgress m f) = True"
| "winner (AtSetModel m f) = True"
| "winner (AtSetFilename m f) = True"
| "winner (AtRelease (PStream m f)) = True"
| "winner (Returned (PStream m f)) = True"
| "winner pc = False"

fun loser :: "pull_pc \<Rightarrow> bool" where
  "loser AtConflict = True"
| "loser (AtRelease (PReply c b)) = True"
| "loser (Returned (PReply c b)) = True"
| "loser pc = False"

fun written :: "pull_pc \<Rightarrow> download_job \<Rightarrow> download_job" where
  "written (AtSetModel m f) st = st\<lparr>in_progress := True\<rparr>"
| "written (AtSetFilename m f) st = st\<lparr>in_progress := True, model := m\<rparr>"
| "written (AtRelease (PStream m f)) st = st\<lparr>in_progress := True, model := m, filename := f\<rparr>"
| "written (Returned (PStream m f)) st = st\<lparr>in_progress := True, model := m, filename := f\<rparr>"
| "written pc st = st"

text \<open>
  The invariant of two valid calls started on the job \<open>st0\<close>, not in progress: the lock
  is held exactly when a call is inside the \<^verbatim>\<open>with\<close> block, by one call at most; at most
  one call has found the job idle; a call has found it busy only after its rival has
  returned with the stream; and the job is \<open>st0\<close> with the assignments made so far.
\<close>

definition pull_inv :: "env \<Rightarrow> json \<Rightarrow> json \<Rightarrow> download_job \<Rightarrow> pull_conf \<Rightarrow> bool" where
  "pull_inv env a b st0 c =
     (case c of (lk, st, p1, p2) \<Rightarrow>
        call_at env a b p1 \<and> call_at env b a p2 \<and>
        lk = (holds_lock p1 \<or> holds_lock p2) \<and>
        (holds_lock p1 \<and> holds_lock p2) = False \<and>
        (winner p1 \<and> winner p2) = False \<and>
        (if loser p1
         then p2 = Returned (PStream (dict_field b ''model'') (dict_field b ''filename''))
         else True) \<and>
        (if loser p2
         then p1 = Returned (PStream (dict_field a ''model'') (dict_field a ''filename''))
         else True) \<and>
        st = written p1 (written p2 st0))"

text \<open>
  The characters between the quotes of a JSON string (RFC 8259): no bare double quote,
  no bare control character, and a backslash only as the start of an escape.
\<close>

fun json_string_body :: "string \<Rightarrow> bool" where
  \<open>json_string_body [] = True\<close>
| \<open>json_string_body (c # cs) =
     (if c = CHR 0x22 then False
      else if c = CHR 0x5C then
        (case cs of
           [] \<Rightarrow> False
         | e # rest \<Rightarrow>
             if e \<in> set [CHR 0x22, CHR 0x5C, CHR ''/'', CHR ''b'', CHR ''f'', CHR ''n'',
                          CHR ''r'', CHR ''t'']
             then json_string_body rest
             else if e = CHR ''u''
             then 4 \<le> length rest \<and>
                  list_all (\<lambda>h. h \<in> set ''0123456789abcdefABCDEF'') (take 4 rest) \<and>
                  json_string_body rest
             else False)
      else if (of_char c :: nat) < 32 then False
      else json_string_body cs)\<close>

text \<open>A line that is the JSON object \<open>{"error": "<message>"}\<close> followed by a newline.\<close>

definition is_error_object :: "string \<Rightarrow> bool" where
  \<open>is_error_object chunk =
     (length (''{"error": "'' @ ''"}'' @ nl) \<le> length chunk \<and>
      take (length ''{"error": "'') chunk = ''{"error": "'' \<and>
      drop (length chunk - length (''"}'' @ nl)) chunk = ''"}'' @ nl \<and>
      json_string_body
        (take (length chunk - length (''{"error": "'' @ ''"}'' @ nl))
           (drop (length ''{"error": "'') chunk)))\<close>

text \<open>The defaults the specification documents for the sampling parameters.\<close>

definition documented_defaults :: "(string \<times> json) list" where
  "documented_defaults =
     [(''temperature'', JFloat 0.7),
      (''max_tokens'', JInt 512),
      (''top_p'', JFloat 1.0),
      (''frequency_penalty'', JFloat 0.0),
      (''presence_penalty'', JFloat 0.0)]"

text \<open>An environment, a buffered backend response and a world for concrete runs.\<close>

definition sample_env :: env where
  "sample_env =
     \<lparr>str_other = (\<lambda>v. ''?''), fault_text = (\<lambda>f. ''fault''), hash_val = (\<lambda>v. 7),
      now = 1700000000, float_add = (\<lambda>x y. x + y)\<rparr>"

definition buffered :: "int \<Rightarrow> json \<Rightarrow> http_response" where
  "buffered code body =
     \<lparr>status_code = code, json_body = Inr body, iter_content = ([], None),
      iter_lines = ([], None)\<rparr>"

definition sample_world :: world where
  "sample_world =
     \<lparr>os_makedirs = None,
      hf_hub_download = (\<lambda>repo name. Inr ''/models/model.gguf''),
      file_bytes = (\<lambda>path. Inr ''<!DOCTYPE html>''),
      os_remove = (\<lambda>path. None),
      os_path_getsize = (\<lambda>path. Inr 15),
      run_discover = Inr 0,
      run_pgrep = Inr (0, Some (Inr 4242))\<rparr>"

section \<open>Properties\<close>

subsection \<open>Helper facts\<close>

lemma message_line_chat:
  "chat_message msg rc \<Longrightarrow> message_line env msg = Inr (chat_line rc)"
  by (cases msg) (simp_all add: chat_message_def message_line_def bind_exn_def get_or_def
      chat_line_def)

lemma map_exn_chat:
  "list_all2 chat_message ms rcs \<Longrightarrow>
   map_exn (message_line env) ms = Inr (map chat_line rcs)"
  by (induction ms rcs rule: list_all2_induct) (simp_all add: message_line_chat)

lemma extract_prompt_chat:
  assumes "map_of d ''messages'' = Some (JArr ms)" and "list_all2 chat_message ms rcs"
  shows "extract_prompt env (JObj d) = Inr (JStr (str_join nl (map chat_line rcs)))"
  using assms by (simp add: extract_prompt_def bind_exn_def get_or_def map_exn_chat)

lemma extract_prompt_plain:
  assumes "map_of d ''messages'' = None"
  shows "extract_prompt env (JObj d) = Inr (get_or d ''prompt'' (JStr []))"
  using assms by (simp add: extract_prompt_def bind_exn_def)

lemma pull_model_valid:
  assumes "valid_pull data"
  shows "pull_model env (Inr data) st =
     (if in_progress st then
        (PReply 409 (JObj [(''status'', JStr ''error''),
           (''error'', JStr (''Download already in progress: '' @
              py_str env (model st) @ ''/'' @ py_str env (filename st)))]), st)
      else
        (case data of JObj kv \<Rightarrow>
          (PStream (get_or kv ''model'' JNull) (get_or kv ''filename'' JNull),
           st\<lparr>in_progress := True, model := get_or kv ''model'' JNull,
              filename := get_or kv ''filename'' JNull\<rparr>)))"
  using assms by (cases data) (auto simp add: valid_pull_def pull_model_def get_or_def)

lemma wrapper_shimmy_request_obj:
  "wrapper_shimmy_request env (JObj d) p =
     Inr [(''model'', get_or d ''model'' (JStr ''phi3-lora'')),
          (''prompt'', p),
          (''stream'', get_or d ''stream'' (JBool False)),
          (''temperature'', get_or d ''temperature'' (JFloat 0.7)),
          (''max_tokens'', get_or d ''max_tokens'' (JInt 512)),
          (''top_p'', get_or d ''top_p'' (JFloat 1.0)),
          (''frequency_penalty'', get_or d ''frequency_penalty'' (JFloat 0.0)),
          (''presence_penalty'', get_or d ''presence_penalty'' (JFloat 0.0))]"
  by (simp add: wrapper_shimmy_request_def bind_exn_def)

lemma shimmy_request_obj:
  "shimmy_request env (JObj d) p =
     Inr [(''model'', get_or d ''model'' (JStr [])),
          (''prompt'', p),
          (''stream'', get_or d ''stream'' (JBool False)),
          (''temperature'', get_or d ''temperature'' (JFloat 0.7)),
          (''max_tokens'', get_or d ''max_tokens'' (JInt 512))]"
  by (simp add: shimmy_request_def bind_exn_def)

lemma chat_envelope_result:
  assumes "map_of r ''response'' = Some (JStr text)"
    and "map_of r ''prompt_eval_count'' = Some (JInt pc)"
    and "map_of r ''eval_count'' = Some (JInt ec)"
  shows "chat_envelope env (JObj d) (JObj r) =
     Inr (JObj
       [(''id'', JStr (''chatcmpl-'' @ py_str env (JInt (hash_val env (JStr text))))),
        (''object'', JStr ''chat.completion''),
        (''created'', JInt (now env)),
        (''model'', get_or d ''model'' (JStr ''phi3-lora'')),
        (''choices'', JArr [JObj
           [(''index'', JInt 0),
            (''message'', JObj [(''role'', JStr ''assistant''), (''content'', JStr text)]),
            (''finish_reason'', JStr ''stop'')]]),
        (''usage'', JObj
           [(''prompt_tokens'', JInt pc),
            (''completion_tokens'', JInt ec),
            (''total_tokens'', JInt (pc + ec))])])"
  using assms by (simp add: chat_envelope_def bind_exn_def get_or_def)

lemma check_gguf_file_bad_magic:
  assumes "file_bytes w path = Inr content"
    and "take 4 content \<noteq> ''GGUF''" and "take 4 content \<noteq> ''GGML''"
  shows "\<not> check_gguf_file w path"
  using assms by (simp add: check_gguf_file_def)

lemma generate_try_invalid:
  assumes "os_makedirs w = None" and "hf_hub_download w m f = Inr path"
    and "\<not> check_gguf_file w path"
  shows "pull_model_generate_try w m f =
     (os_remove w path,
      Starting m f # (case os_remove w path of
                        None \<Rightarrow> [Error ''Downloaded file is not a valid GGUF/GGML model'']
                      | Some e \<Rightarrow> []),
      [Makedirs, Download m f, OpenRead path, Remove path])"
  using assms by (simp add: pull_model_generate_try_def split: option.splits)

lemma pull_model_missing_fields:
  assumes "\<not> truthy data \<or>
           (\<exists>kv. data = JObj kv \<and>
              (\<not> truthy (get_or kv ''model'' JNull) \<or> \<not> truthy (get_or kv ''filename'' JNull)))"
  shows "\<exists>body. pull_model env (Inr data) st = (PReply 400 body, st)"
  using assms by (auto simp add: pull_model_def)

lemma pull_model_non_object:
  assumes "truthy data" and "\<forall>kv. data \<noteq> JObj kv"
  shows "pull_model env (Inr data) st =
     (PReply 500 (JObj [(''status'', JStr ''error''),
        (''error'', JStr (fault_text env (NoAttribute data ''get'')))]),
      st\<lparr>in_progress := False, model := JNull, filename := JNull\<rparr>)"
  using assms by (cases data) (simp_all add: pull_model_def pull_model_except_def)

lemma v1_completions_obj:
  "v1_completions env post (Inr (JObj d)) =
     (case extract_prompt env (JObj d) of
        Inl e \<Rightarrow> error_reply e
      | Inr p \<Rightarrow>
          (case post (JObj
                  [(''model'', get_or d ''model'' (JStr [])),
                   (''prompt'', p),
                   (''stream'', get_or d ''stream'' (JBool False)),
                   (''temperature'', get_or d ''temperature'' (JFloat 0.7)),
                   (''max_tokens'', get_or d ''max_tokens'' (JInt 512))]) False of
             Inl e \<Rightarrow> error_reply e
           | Inr resp \<Rightarrow>
               (case json_body resp of
                  Inl e \<Rightarrow> error_reply e
                | Inr body \<Rightarrow> Reply (status_code resp) body)))"
  unfolding v1_completions_def
  by (simp add: bind_exn_def shimmy_request_obj split: sum.splits)

lemma v1_completions_never_streams:
  "v1_completions env post req \<noteq> Streamed mt out"
  by (simp add: v1_completions_def bind_exn_def error_reply_def split: sum.splits)

lemma v1_completions_buffered_only:
  assumes "\<forall>payload. post payload False = post' payload False"
  shows "v1_completions env post req = v1_completions env post' req"
  using assms by (simp add: v1_completions_def bind_exn_def split: sum.splits)

lemma valid_pull_fields:
  assumes "valid_pull d"
  shows "\<exists>kv. d = JObj kv \<and> truthy (get_or kv ''model'' JNull) \<and>
     truthy (get_or kv ''filename'' JNull) \<and> kv \<noteq> []"
  using assms by (cases d) (auto simp add: valid_pull_def get_or_def)

lemma validate_valid:
  assumes "valid_pull d"
  shows "pull_step env (lk, st, AtValidate (Inr d)) =
     (lk, st, AtAcquire (dict_field d ''model'') (dict_field d ''filename''))"
  using valid_pull_fields [OF assms] by (auto simp add: dict_field_def)

lemma conflict_reply_simps [simp]:
  "loser (AtRelease (conflict_reply env d))"
  "loser (Returned (conflict_reply env d))"
  "\<not> winner (AtRelease (conflict_reply env d))"
  "\<not> winner (Returned (conflict_reply env d))"
  "written (AtRelease (conflict_reply env d)) st = st"
  "written (Returned (conflict_reply env d)) st = st"
  "conflict_reply env d \<noteq> PStream m f"
  "PStream m f \<noteq> conflict_reply env d"
  by (simp_all add: conflict_reply_def)

lemma conflict_step:
  assumes "model st = dict_field d ''model''" and "filename st = dict_field d ''filename''"
  shows "pull_step env (lk, st, AtConflict) = (lk, st, AtRelease (conflict_reply env d))"
  using assms by (simp add: conflict_reply_def)

lemma not_winner_written: "\<not> winner pc \<Longrightarrow> written pc st = st"
  by (induction pc st rule: written.induct) simp_all

lemma call_at_cases:
  assumes "call_at env d rival pc"
  obtains (validate) "pc = AtValidate (Inr d)"
  | (acquire) "pc = AtAcquire (dict_field d ''model'') (dict_field d ''filename'')"
  | (check) "pc = AtCheck (dict_field d ''model'') (dict_field d ''filename'')"
  | (conflict) "pc = AtConflict"
  | (set_in_progress) "pc = AtSetInProgress (dict_field d ''model'') (dict_field d ''filename'')"
  | (set_model) "pc = AtSetModel (dict_field d ''model'') (dict_field d ''filename'')"
  | (set_filename) "pc = AtSetFilename (dict_field d ''model'') (dict_field d ''filename'')"
  | (release_stream) "pc = AtRelease (PStream (dict_field d ''model'') (dict_field d ''filename''))"
  | (release_conflict) "pc = AtRelease (conflict_reply env rival)"
  | (returned_stream) "pc = Returned (PStream (dict_field d ''model'') (dict_field d ''filename''))"
  | (returned_conflict) "pc = Returned (conflict_reply env rival)"
  using assms unfolding call_at_def by auto

lemma call_at_intros [simp]:
  "call_at env d rival (AtValidate (Inr d))"
  "call_at env d rival (AtAcquire (dict_field d ''model'') (dict_field d ''filename''))"
  "call_at env d rival (AtCheck (dict_field d ''model'') (dict_field d ''filename''))"
  "call_at env d rival AtConflict"
  "call_at env d rival (AtSetInProgress (dict_field d ''model'') (dict_field d ''filename''))"
  "call_at env d rival (AtSetModel (dict_field d ''model'') (dict_field d ''filename''))"
  "call_at env d rival (AtSetFilename (dict_field d ''model'') (dict_field d ''filename''))"
  "call_at env d rival (AtRelease (PStream (dict_field d ''model'') (dict_field d ''filename'')))"
  "call_at env d rival (AtRelease (conflict_reply env rival))"
  "call_at env d rival (Returned (PStream (dict_field d ''model'') (dict_field d ''filename'')))"
  "call_at env d rival (Returned (conflict_reply env rival))"
  by (simp_all add: call_at_def)

lemma pull_inv_first:
  assumes a: "valid_pull a" and idle: "\<not> in_progress st0"
    and inv: "pull_inv env a b st0 (lk, st, p1, p2)"
  shows "pull_inv env a b st0 (sched_step env (lk, st, p1, p2) True)"
proof -
  from inv have c1: "call_at env a b p1" and c2: "call_at env b a p2"
    and lk: "lk = (holds_lock p1 \<or> holds_lock p2)"
    and excl: "\<not> (holds_lock p1 \<and> holds_lock p2)"
    and nowin: "\<not> (winner p1 \<and> winner p2)"
    and l1: "loser p1 \<Longrightarrow>
      p2 = Returned (PStream (dict_field b ''model'') (dict_field b ''filename''))"
    and l2: "loser p2 \<Longrightarrow>
      p1 = Returned (PStream (dict_field a ''model'') (dict_field a ''filename''))"
    and st: "st = written p1 (written p2 st0)"
    by (simp_all add: pull_inv_def split: if_splits)
  from c1 show ?thesis
  proof (cases rule: call_at_cases)
    case validate
    with c2 lk excl nowin l2 st show ?thesis
      by (auto simp add: pull_inv_def validate_valid [OF a] simp del: pull_step.simps(1))
  next
    case acquire
    with c2 lk excl nowin l2 st show ?thesis
      by (auto simp add: pull_inv_def)
  next
    case check
    with excl have free: "\<not> holds_lock p2" by simp
    from c2 show ?thesis
    proof (cases rule: call_at_cases)
      case validate
      with check lk st idle show ?thesis by (simp add: pull_inv_def)
    next
      case acquire
      with check lk st idle show ?thesis by (simp add: pull_inv_def)
    next
      case returned_stream
      with check lk st idle show ?thesis by (simp add: pull_inv_def)
    next
      case returned_conflict
      with l2 check show ?thesis by simp
    qed (use free in simp_all)
  next
    case conflict
    then have p2: "p2 = Returned (PStream (dict_field b ''model'') (dict_field b ''filename''))"
      using l1 by simp
    with conflict st have "model st = dict_field b ''model''"
      and "filename st = dict_field b ''filename''"
      by simp_all
    then have "pull_step env (lk, st, AtConflict) = (lk, st, AtRelease (conflict_reply env b))"
      by (rule conflict_step)
    with conflict p2 lk st show ?thesis
      by (simp add: pull_inv_def)
  next
    case set_in_progress
    with nowin have nw: "\<not> winner p2" by simp
    from set_in_progress excl have free: "\<not> holds_lock p2" by simp
    from set_in_progress l2 have nl: "\<not> loser p2" by auto
    from set_in_progress c2 lk st nw free nl show ?thesis
      by (simp add: pull_inv_def not_winner_written)
  next
    case set_model
    with nowin have nw: "\<not> winner p2" by simp
    from set_model excl have free: "\<not> holds_lock p2" by simp
    from set_model l2 have nl: "\<not> loser p2" by auto
    from set_model c2 lk st nw free nl show ?thesis
      by (simp add: pull_inv_def not_winner_written)
  next
    case set_filename
    with nowin have nw: "\<not> winner p2" by simp
    from set_filename excl have free: "\<not> holds_lock p2" by simp
    from set_filename l2 have nl: "\<not> loser p2" by auto
    from set_filename c2 lk st nw free nl show ?thesis
      by (simp add: pull_inv_def not_winner_written)
  next
    case release_stream
    with nowin have nw: "\<not> winner p2" by simp
    from release_stream excl have free: "\<not> holds_lock p2" by simp
    from release_stream l2 have nl: "\<not> loser p2" by auto
    from release_stream c2 lk st nw free nl show ?thesis
      by (simp add: pull_inv_def not_winner_written)
  next
    case release_conflict
    then have p2: "p2 = Returned (PStream (dict_field b ''model'') (dict_field b ''filename''))"
      using l1 by simp
    with release_conflict lk st show ?thesis
      by (simp add: pull_inv_def)
  next
    case returned_stream
    with c2 lk excl nowin l2 st show ?thesis
      by (auto simp add: pull_inv_def)
  next
    case returned_conflict
    with c2 lk excl nowin l1 st show ?thesis
      by (auto simp add: pull_inv_def)
  qed
qed

lemma written_commute:
  "\<not> (winner p1 \<and> winner p2) \<Longrightarrow> written p1 (written p2 st) = written p2 (written p1 st)"
  by (cases "winner p1") (auto simp add: not_winner_written)

lemma pull_inv_swap:
  "pull_inv env a b st0 (lk, st, p1, p2) = pull_inv env b a st0 (lk, st, p2, p1)"
proof (cases "winner p1 \<and> winner p2")
  case True
  then show ?thesis by (simp add: pull_inv_def)
next
  case False
  then have "written p1 (written p2 st0) = written p2 (written p1 st0)"
    by (rule written_commute)
  then show ?thesis by (auto simp add: pull_inv_def)
qed

lemma sched_step_swap:
  "sched_step env (lk, st, p1, p2) False =
     (case sched_step env (lk, st, p2, p1) True of (lk', st', q2, q1) \<Rightarrow> (lk', st', q1, q2))"
  by (simp split: prod.splits)

lemma pull_inv_second:
  assumes b: "valid_pull b" and idle: "\<not> in_progress st0"
    and inv: "pull_inv env a b st0 (lk, st, p1, p2)"
  shows "pull_inv env a b st0 (sched_step env (lk, st, p1, p2) False)"
proof -
  from inv have "pull_inv env b a st0 (lk, st, p2, p1)"
    by (simp add: pull_inv_swap)
  from pull_inv_first [OF b idle this]
  have "pull_inv env b a st0 (sched_step env (lk, st, p2, p1) True)" .
  then show ?thesis
    unfolding sched_step_swap
    by (cases "sched_step env (lk, st, p2, p1) True") (simp add: pull_inv_swap)
qed

lemma pull_inv_step:
  assumes "valid_pull a" and "valid_pull b" and "\<not> in_progress st0"
    and "pull_inv env a b st0 c"
  shows "pull_inv env a b st0 (sched_step env c tid)"
proof -
  obtain lk st p1 p2 where c: "c = (lk, st, p1, p2)"
    by (cases c) auto
  show ?thesis
    using assms pull_inv_first [of a st0 env b lk st p1 p2]
      pull_inv_second [of b st0 env a lk st p1 p2]
    unfolding c by (cases tid) simp_all
qed

lemma pull_inv_run:
  assumes "valid_pull a" and "valid_pull b" and "\<not> in_progress st0"
    and "pull_inv env a b st0 c"
  shows "pull_inv env a b st0 (run_schedule env sched c)"
  using assms(4)
proof (induction sched arbitrary: c)
  case Nil
  then show ?case by (simp add: run_schedule_def)
next
  case (Cons tid sched)
  from pull_inv_step [OF assms(1-3) Cons.prems]
  have "pull_inv env a b st0 (sched_step env c tid)" .
  from Cons.IH [OF this] show ?case
    by (simp add: run_schedule_def)
qed

lemma pull_inv_init:
  "pull_inv env a b st0 (False, st0, AtValidate (Inr a), AtValidate (Inr b))"
  by (simp add: pull_inv_def)

lemma pull_inv_returned:
  assumes "pull_inv env a b st0 (lk, st, Returned ra, Returned rb)"
  shows "(ra = PStream (dict_field a ''model'') (dict_field a ''filename'') \<and>
          rb = conflict_reply env a \<and>
          st = st0\<lparr>in_progress := True, model := dict_field a ''model'',
                 filename := dict_field a ''filename''\<rparr>) \<or>
         (rb = PStream (dict_field b ''model'') (dict_field b ''filename'') \<and>
          ra = conflict_reply env b \<and>
          st = st0\<lparr>in_progress := True, model := dict_field b ''model'',
                 filename := dict_field b ''filename''\<rparr>)"
proof -
  from assms have c1: "call_at env a b (Returned ra)" and c2: "call_at env b a (Returned rb)"
    and nowin: "\<not> (winner (Returned ra) \<and> winner (Returned rb))"
    and st: "st = written (Returned ra) (written (Returned rb) st0)"
    by (simp_all add: pull_inv_def split: if_splits)
  from c1 have ra: "ra = PStream (dict_field a ''model'') (dict_field a ''filename'') \<or>
      ra = conflict_reply env b"
    by (cases rule: call_at_cases) simp_all
  from c2 have rb: "rb = PStream (dict_field b ''model'') (dict_field b ''filename'') \<or>
      rb = conflict_reply env a"
    by (cases rule: call_at_cases) simp_all
  from assms have l1: "loser (Returned ra) \<Longrightarrow>
      rb = PStream (dict_field b ''model'') (dict_field b ''filename'')"
    and l2: "loser (Returned rb) \<Longrightarrow>
      ra = PStream (dict_field a ''model'') (dict_field a ''filename'')"
    by (simp_all add: pull_inv_def split: if_splits)
  from ra rb nowin l1 l2 st show ?thesis
    by auto
qed

lemma alone_returns:
  assumes "call_at env d rival pc" and d: "valid_pull d" and "lk = holds_lock pc"
  shows "\<exists>lk' st' res. (pull_step env ^^ 7) (lk, st, pc) = (lk', st', Returned res)"
  using assms(1)
proof (cases rule: call_at_cases)
  case validate
  with assms(3) show ?thesis
    by (auto simp add: eval_nat_numeral validate_valid [OF d] simp del: pull_step.simps(1))
qed (use assms(3) in \<open>auto simp add: eval_nat_numeral\<close>)

lemma run_first_only:
  "run_schedule env (replicate n True) (lk, st, p1, p2) =
     (case (pull_step env ^^ n) (lk, st, p1) of (lk', st', p1') \<Rightarrow> (lk', st', p1', p2))"
proof (induction n arbitrary: lk st p1)
  case 0
  then show ?case by (simp add: run_schedule_def)
next
  case (Suc n)
  obtain lk1 st1 q1 where s: "pull_step env (lk, st, p1) = (lk1, st1, q1)"
    by (cases "pull_step env (lk, st, p1)") auto
  have "run_schedule env (replicate (Suc n) True) (lk, st, p1, p2) =
      run_schedule env (replicate n True) (lk1, st1, q1, p2)"
    by (simp add: run_schedule_def s)
  also have "\<dots> = (case (pull_step env ^^ n) (lk1, st1, q1) of
      (lk', st', p1') \<Rightarrow> (lk', st', p1', p2))"
    by (rule Suc.IH)
  also have "(pull_step env ^^ n) (lk1, st1, q1) = (pull_step env ^^ Suc n) (lk, st, p1)"
    by (simp add: funpow_swap1 s)
  finally show ?case .
qed

lemma run_second_only:
  "run_schedule env (replicate n False) (lk, st, p1, p2) =
     (case (pull_step env ^^ n) (lk, st, p2) of (lk', st', p2') \<Rightarrow> (lk', st', p1, p2'))"
proof (induction n arbitrary: lk st p2)
  case 0
  then show ?case by (simp add: run_schedule_def)
next
  case (Suc n)
  obtain lk1 st1 q2 where s: "pull_step env (lk, st, p2) = (lk1, st1, q2)"
    by (cases "pull_step env (lk, st, p2)") auto
  have "run_schedule env (replicate (Suc n) False) (lk, st, p1, p2) =
      run_schedule env (replicate n False) (lk1, st1, p1, q2)"
    by (simp add: run_schedule_def s)
  also have "\<dots> = (case (pull_step env ^^ n) (lk1, st1, q2) of
      (lk', st', p2') \<Rightarrow> (lk', st', p1, p2'))"
    by (rule Suc.IH)
  also have "(pull_step env ^^ n) (lk1, st1, q2) = (pull_step env ^^ Suc n) (lk, st, p2)"
    by (simp add: funpow_swap1 s)
  finally show ?case .
qed

lemma run_schedule_append:
  "run_schedule env (xs @ ys) c = run_schedule env ys (run_schedule env xs c)"
  by (simp add: run_schedule_def)

lemma pull_inv_parts:
  assumes "pull_inv env a b st0 (lk, st, p1, p2)"
  shows "call_at env a b p1" and "call_at env b a p2"
    and "lk = (holds_lock p1 \<or> holds_lock p2)"
    and "\<not> (holds_lock p1 \<and> holds_lock p2)"
  using assms by (simp_all add: pull_inv_def)

lemma first_returns:
  assumes a: "valid_pull a" and b: "valid_pull b" and idle: "\<not> in_progress st0"
    and inv: "pull_inv env a b st0 (lk, st, p1, p2)" and free: "\<not> holds_lock p2"
  shows "\<exists>lk' st' ra. run_schedule env (replicate 7 True) (lk, st, p1, p2) =
     (lk', st', Returned ra, p2)"
proof -
  from pull_inv_parts [OF inv] free have "call_at env a b p1" and "lk = holds_lock p1"
    by simp_all
  from alone_returns [OF this(1) a this(2), of st]
  obtain lk' st' ra where "(pull_step env ^^ 7) (lk, st, p1) = (lk', st', Returned ra)"
    by blast
  then show ?thesis
    by (simp add: run_first_only)
qed

lemma second_returns:
  assumes a: "valid_pull a" and b: "valid_pull b" and idle: "\<not> in_progress st0"
    and inv: "pull_inv env a b st0 (lk, st, p1, p2)" and free: "\<not> holds_lock p1"
  shows "\<exists>lk' st' rb. run_schedule env (replicate 7 False) (lk, st, p1, p2) =
     (lk', st', p1, Returned rb)"
proof -
  from pull_inv_parts [OF inv] free have "call_at env b a p2" and "lk = holds_lock p2"
    by simp_all
  from alone_returns [OF this(1) b this(2), of st]
  obtain lk' st' rb where "(pull_step env ^^ 7) (lk, st, p2) = (lk', st', Returned rb)"
    by blast
  then show ?thesis
    by (simp add: run_second_only)
qed

lemma first_keeps_second:
  "\<exists>lk' st' q1. run_schedule env (replicate n True) (lk, st, p1, p2) = (lk', st', q1, p2)"
  by (cases "(pull_step env ^^ n) (lk, st, p1)") (simp add: run_first_only)

lemma both_return:
  assumes a: "valid_pull a" and b: "valid_pull b" and idle: "\<not> in_progress st0"
    and inv: "pull_inv env a b st0 c"
  shows "\<exists>lk st ra rb.
     run_schedule env (replicate 7 True @ replicate 7 False @ replicate 7 True) c =
       (lk, st, Returned ra, Returned rb)"
proof -
  obtain lk st p1 p2 where c: "c = (lk, st, p1, p2)"
    by (cases c) auto
  obtain lk1 st1 q1 where r1:
    "run_schedule env (replicate 7 True) c = (lk1, st1, q1, p2)"
    using first_keeps_second [of env 7 lk st p1 p2] unfolding c by blast
  have inv1: "pull_inv env a b st0 (lk1, st1, q1, p2)"
    using pull_inv_run [OF a b idle inv, of "replicate 7 True"] by (simp add: r1)
  have free1: "\<not> holds_lock q1"
  proof (cases "holds_lock p2")
    case True
    with pull_inv_parts(4) [OF inv1] show ?thesis by simp
  next
    case False
    from first_returns [OF a b idle inv [unfolded c] False] r1 [unfolded c]
    show ?thesis by auto
  qed
  from second_returns [OF a b idle inv1 free1]
  obtain lk2 st2 rb where r2:
    "run_schedule env (replicate 7 False) (lk1, st1, q1, p2) = (lk2, st2, q1, Returned rb)"
    by blast
  have inv2: "pull_inv env a b st0 (lk2, st2, q1, Returned rb)"
    using pull_inv_run [OF a b idle inv1, of "replicate 7 False"] by (simp add: r2)
  from first_returns [OF a b idle inv2]
  obtain lk3 st3 ra where r3:
    "run_schedule env (replicate 7 True) (lk2, st2, q1, Returned rb) =
       (lk3, st3, Returned ra, Returned rb)"
    by auto
  show ?thesis
    by (simp add: run_schedule_append r1 r2 r3)
qed

lemma lone_call:
  "(pull_step env ^^ 7) (False, st, AtValidate req) =
     (False, snd (pull_model env req st), Returned (fst (pull_model env req st)))"
  by (auto simp add: eval_nat_numeral pull_model_def pull_model_except_def
      split: sum.splits)

lemma relay_output:
  \<open>v1_generate_generate post data =
     (case post data True of
        Inl e \<Rightarrow> \<lparr>chunks = [''{"error": "'' @ str_of e @ ''"}'' @ nl], raised = None\<rparr>
      | Inr resp \<Rightarrow>
          (case snd (iter_content resp) of
             None \<Rightarrow>
               \<lparr>chunks = filter (\<lambda>chunk. chunk \<noteq> []) (fst (iter_content resp)),
                raised = None\<rparr>
           | Some e \<Rightarrow>
               \<lparr>chunks = filter (\<lambda>chunk. chunk \<noteq> []) (fst (iter_content resp)) @
                         [''{"error": "'' @ str_of e @ ''"}'' @ nl],
                raised = None\<rparr>))\<close>
  by (simp add: v1_generate_generate_def v1_generate_generate_try_def
      split: sum.splits option.splits prod.splits)

subsection \<open>C3: the derived prompt\<close>

text \<open>
  Claim C3. When \<^verbatim>\<open>messages\<close> is present and holds the N chat messages \<open>rcs\<close> (pairs of
  role and content, N \<ge> 0), the derived prompt is the lines \<open>role: content\<close> in the
  original order joined by newline, and the empty prompt for N = 0. When
  \<^verbatim>\<open>messages\<close> is absent, the derived prompt is the \<^verbatim>\<open>prompt\<close> field verbatim, or the
  empty string when that field is absent too.
\<close>

theorem derived_prompt:
  "(map_of d ''messages'' = Some (JArr ms) \<and> list_all2 chat_message ms rcs \<longrightarrow>
      extract_prompt env (JObj d) =
        Inr (JStr (str_join nl (map (\<lambda>rc. fst rc @ '': '' @ snd rc) rcs)))) \<and>
   (map_of d ''messages'' = Some (JArr []) \<longrightarrow>
      extract_prompt env (JObj d) = Inr (JStr [])) \<and>
   (map_of d ''messages'' = None \<and> map_of d ''prompt'' = Some p \<longrightarrow>
      extract_prompt env (JObj d) = Inr p) \<and>
   (map_of d ''messages'' = None \<and> map_of d ''prompt'' = None \<longrightarrow>
      extract_prompt env (JObj d) = Inr (JStr []))"
proof (intro conjI impI)
  assume a: "map_of d ''messages'' = Some (JArr ms) \<and> list_all2 chat_message ms rcs"
  have "map chat_line rcs = map (\<lambda>rc. fst rc @ '': '' @ snd rc) rcs"
    by (simp add: chat_line_def)
  with a extract_prompt_chat [of d ms rcs env]
  show "extract_prompt env (JObj d) =
      Inr (JStr (str_join nl (map (\<lambda>rc. fst rc @ '': '' @ snd rc) rcs)))"
    by simp
next
  assume "map_of d ''messages'' = Some (JArr [])"
  then show "extract_prompt env (JObj d) = Inr (JStr [])"
    using extract_prompt_chat [of d "[]" "[]" env] by simp
next
  assume "map_of d ''messages'' = None \<and> map_of d ''prompt'' = Some p"
  then show "extract_prompt env (JObj d) = Inr p"
    by (simp add: extract_prompt_plain get_or_def)
next
  assume "map_of d ''messages'' = None \<and> map_of d ''prompt'' = None"
  then show "extract_prompt env (JObj d) = Inr (JStr [])"
    by (simp add: extract_prompt_plain get_or_def)
qed

theorem derived_prompt_witness:
  "extract_prompt sample_env
     (JObj [(''messages'', JArr [JObj [(''role'', JStr ''user''), (''content'', JStr ''hi'')],
                                 JObj [(''role'', JStr ''assistant''), (''content'', JStr ''yo'')]])])
     = Inr (JStr (''user: hi'' @ nl @ ''assistant: yo'')) \<and>
   extract_prompt sample_env (JObj [(''messages'', JArr [])]) = Inr (JStr []) \<and>
   extract_prompt sample_env (JObj [(''prompt'', JStr ''Once'')]) = Inr (JStr ''Once'') \<and>
   extract_prompt sample_env (JObj [(''model'', JStr ''m'')]) = Inr (JStr [])"
  using derived_prompt [of "[(''messages'', JArr [JObj [(''role'', JStr ''user''), (''content'', JStr ''hi'')],
                                 JObj [(''role'', JStr ''assistant''), (''content'', JStr ''yo'')]])]"
          "[JObj [(''role'', JStr ''user''), (''content'', JStr ''hi'')],
                                 JObj [(''role'', JStr ''assistant''), (''content'', JStr ''yo'')]]"
          "[(''user'', ''hi''), (''assistant'', ''yo'')]" sample_env]
     derived_prompt [of "[(''messages'', JArr [])]" "[]" "[]" sample_env]
     derived_prompt [of "[(''prompt'', JStr ''Once'')]" _ _ _ "JStr ''Once''"]
     derived_prompt [of "[(''model'', JStr ''m'')]"]
  by (simp add: chat_message_def)

subsection \<open>C1: the download job is released\<close>

text \<open>
  Claim C1. Whatever the world does (the download succeeds, the artifact fails
  validation, or a call of the fetch or of the discovery raises), once the generator of
  \<^verbatim>\<open>pull_model\<close> has run to its end the download job has \<open>in_progress = False\<close> and
  \<open>model\<close> and \<open>filename\<close> cleared, from whatever state it was in.
\<close>

theorem download_cleanup:
  "job (pull_model_generate w model_repo fname st) =
     \<lparr>in_progress = False, model = JNull, filename = JNull\<rparr>"
  by (simp add: pull_model_generate_def split: prod.splits)

theorem download_cleanup_witness:
  "job (pull_model_generate
      (sample_world\<lparr>hf_hub_download := (\<lambda>repo name. Inl (Exn HfHubHTTPError ''404''))\<rparr>)
      (JStr ''org/repo'') (JStr ''model.gguf'')
      \<lparr>in_progress = True, model = JStr ''org/repo'', filename = JStr ''model.gguf''\<rparr>) =
     \<lparr>in_progress = False, model = JNull, filename = JNull\<rparr> \<and>
   job (pull_model_generate sample_world (JStr ''org/repo'') (JStr ''model.gguf'')
      \<lparr>in_progress = True, model = JStr ''org/repo'', filename = JStr ''model.gguf''\<rparr>) =
     \<lparr>in_progress = False, model = JNull, filename = JNull\<rparr>"
  using download_cleanup [of
      "sample_world\<lparr>hf_hub_download := (\<lambda>repo name. Inl (Exn HfHubHTTPError ''404''))\<rparr>"
      "JStr ''org/repo''" "JStr ''model.gguf''"
      "\<lparr>in_progress = True, model = JStr ''org/repo'', filename = JStr ''model.gguf''\<rparr>"]
    download_cleanup [of sample_world "JStr ''org/repo''" "JStr ''model.gguf''"
      "\<lparr>in_progress = True, model = JStr ''org/repo'', filename = JStr ''model.gguf''\<rparr>"]
  by simp

subsection \<open>C2: a second pull is refused\<close>

text \<open>
  Claim C2. A pull request that passes the field checks and arrives while a download is
  in progress gets 409 with a message naming the model and the file name of the job in
  flight, starts no generator (so no fetch) and leaves the job unchanged. Two such
  calls started on an idle job may interleave their steps in any order, the lock
  \<^verbatim>\<open>download_lock\<close> being the only thing that makes a call wait: whenever both have
  returned, exactly one of them has proceeded to the stream and the fetch, the other has
  the 409 naming the first, and the job is that of the first; and every schedule can be
  continued so that both return. Run one after the other, the first proceeds and the
  second gets the 409.
\<close>

theorem pull_conflict:
  assumes "valid_pull a" and "valid_pull b"
  shows "(in_progress st \<longrightarrow>
            pull_model env (Inr a) st =
              (PReply 409 (JObj [(''status'', JStr ''error''),
                 (''error'', JStr (''Download already in progress: '' @
                    py_str env (model st) @ ''/'' @ py_str env (filename st)))]), st)) \<and>
         (\<not> in_progress st \<longrightarrow>
            proceeds (fst (pull_model env (Inr a) st)) \<and>
            pull_model env (Inr b) (snd (pull_model env (Inr a) st)) =
              (PReply 409 (JObj [(''status'', JStr ''error''),
                 (''error'', JStr (''Download already in progress: '' @
                    py_str env (dict_field a ''model'') @ ''/'' @
                    py_str env (dict_field a ''filename'')))]),
               snd (pull_model env (Inr a) st)) \<and>
            \<not> proceeds (fst (pull_model env (Inr b) (snd (pull_model env (Inr a) st))))) \<and>
         (\<not> in_progress st \<and>
          run_schedule env sched (False, st, AtValidate (Inr a), AtValidate (Inr b)) =
            (lk, st', Returned ra, Returned rb) \<longrightarrow>
            proceeds ra \<noteq> proceeds rb \<and>
            (ra = PStream (dict_field a ''model'') (dict_field a ''filename'') \<and>
             rb = PReply 409 (JObj [(''status'', JStr ''error''),
                 (''error'', JStr (''Download already in progress: '' @
                    py_str env (dict_field a ''model'') @ ''/'' @
                    py_str env (dict_field a ''filename'')))]) \<and>
             st' = st\<lparr>in_progress := True, model := dict_field a ''model'',
                       filename := dict_field a ''filename''\<rparr>
             \<or>
             rb = PStream (dict_field b ''model'') (dict_field b ''filename'') \<and>
             ra = PReply 409 (JObj [(''status'', JStr ''error''),
                 (''error'', JStr (''Download already in progress: '' @
                    py_str env (dict_field b ''model'') @ ''/'' @
                    py_str env (dict_field b ''filename'')))]) \<and>
             st' = st\<lparr>in_progress := True, model := dict_field b ''model'',
                       filename := dict_field b ''filename''\<rparr>)) \<and>
         (\<not> in_progress st \<longrightarrow>
            (\<exists>lk' st'' ra' rb'.
               run_schedule env
                 (sched @ replicate 7 True @ replicate 7 False @ replicate 7 True)
                 (False, st, AtValidate (Inr a), AtValidate (Inr b)) =
               (lk', st'', Returned ra', Returned rb')))"
proof (intro conjI impI)
  assume "in_progress st"
  then show "pull_model env (Inr a) st =
      (PReply 409 (JObj [(''status'', JStr ''error''),
         (''error'', JStr (''Download already in progress: '' @
            py_str env (model st) @ ''/'' @ py_str env (filename st)))]), st)"
    using assms(1) by (simp add: pull_model_valid)
next
  assume idle: "\<not> in_progress st"
  from assms(1) obtain kv where a: "a = JObj kv"
    by (cases a) (simp_all add: valid_pull_def)
  have first: "pull_model env (Inr a) st =
      (PStream (get_or kv ''model'' JNull) (get_or kv ''filename'' JNull),
       st\<lparr>in_progress := True, model := get_or kv ''model'' JNull,
          filename := get_or kv ''filename'' JNull\<rparr>)"
    using assms(1) idle a by (simp add: pull_model_valid)
  show "proceeds (fst (pull_model env (Inr a) st))"
    by (simp add: first)
  show second: "pull_model env (Inr b) (snd (pull_model env (Inr a) st)) =
      (PReply 409 (JObj [(''status'', JStr ''error''),
         (''error'', JStr (''Download already in progress: '' @
            py_str env (dict_field a ''model'') @ ''/'' @
            py_str env (dict_field a ''filename'')))]),
       snd (pull_model env (Inr a) st))"
    using assms(2) first by (simp add: pull_model_valid a dict_field_def)
  show "\<not> proceeds (fst (pull_model env (Inr b) (snd (pull_model env (Inr a) st))))"
    by (simp add: second)
next
  assume h: "\<not> in_progress st \<and>
      run_schedule env sched (False, st, AtValidate (Inr a), AtValidate (Inr b)) =
        (lk, st', Returned ra, Returned rb)"
  have "pull_inv env a b st (lk, st', Returned ra, Returned rb)"
    using pull_inv_run [OF assms, of st env "(False, st, AtValidate (Inr a), AtValidate (Inr b))"
        sched] h
    by (simp add: pull_inv_init)
  from pull_inv_returned [OF this]
  have ends: "ra = PStream (dict_field a ''model'') (dict_field a ''filename'') \<and>
      rb = conflict_reply env a \<and>
      st' = st\<lparr>in_progress := True, model := dict_field a ''model'',
                filename := dict_field a ''filename''\<rparr> \<or>
      rb = PStream (dict_field b ''model'') (dict_field b ''filename'') \<and>
      ra = conflict_reply env b \<and>
      st' = st\<lparr>in_progress := True, model := dict_field b ''model'',
                filename := dict_field b ''filename''\<rparr>" .
  then show "proceeds ra \<noteq> proceeds rb"
    by (auto simp add: conflict_reply_def)
  from ends show "ra = PStream (dict_field a ''model'') (dict_field a ''filename'') \<and>
       rb = PReply 409 (JObj [(''status'', JStr ''error''),
           (''error'', JStr (''Download already in progress: '' @
              py_str env (dict_field a ''model'') @ ''/'' @
              py_str env (dict_field a ''filename'')))]) \<and>
       st' = st\<lparr>in_progress := True, model := dict_field a ''model'',
                 filename := dict_field a ''filename''\<rparr>
       \<or>
       rb = PStream (dict_field b ''model'') (dict_field b ''filename'') \<and>
       ra = PReply 409 (JObj [(''status'', JStr ''error''),
           (''error'', JStr (''Download already in progress: '' @
              py_str env (dict_field b ''model'') @ ''/'' @
              py_str env (dict_field b ''filename'')))]) \<and>
       st' = st\<lparr>in_progress := True, model := dict_field b ''model'',
                 filename := dict_field b ''filename''\<rparr>"
    unfolding conflict_reply_def .
next
  assume idle: "\<not> in_progress st"
  have "pull_inv env a b st
      (run_schedule env sched (False, st, AtValidate (Inr a), AtValidate (Inr b)))"
    using pull_inv_run [OF assms idle] by (simp add: pull_inv_init)
  from both_return [OF assms idle this]
  show "\<exists>lk' st'' ra' rb'.
      run_schedule env (sched @ replicate 7 True @ replicate 7 False @ replicate 7 True)
        (False, st, AtValidate (Inr a), AtValidate (Inr b)) =
      (lk', st'', Returned ra', Returned rb')"
    by (simp add: run_schedule_append)
qed


theorem pull_conflict_witness:
  "pull_model sample_env
     (Inr (JObj [(''model'', JStr ''org/two''), (''filename'', JStr ''b.gguf'')]))
     \<lparr>in_progress = True, model = JStr ''org/one'', filename = JStr ''a.gguf''\<rparr> =
     (PReply 409 (JObj [(''status'', JStr ''error''),
        (''error'', JStr ''Download already in progress: org/one/a.gguf'')]),
      \<lparr>in_progress = True, model = JStr ''org/one'', filename = JStr ''a.gguf''\<rparr>) \<and>
   proceeds (fst (pull_model sample_env
     (Inr (JObj [(''model'', JStr ''org/two''), (''filename'', JStr ''b.gguf'')])) no_download)) \<and>
   \<not> proceeds (fst (pull_model sample_env
     (Inr (JObj [(''model'', JStr ''org/three''), (''filename'', JStr ''c.gguf'')]))
     (snd (pull_model sample_env
       (Inr (JObj [(''model'', JStr ''org/two''), (''filename'', JStr ''b.gguf'')])) no_download)))) \<and>
   run_schedule sample_env
     [True, False, True, False, True, True, False, True, True, True, False, False, False, False]
     (False, no_download,
      AtValidate (Inr (JObj [(''model'', JStr ''org/two''), (''filename'', JStr ''b.gguf'')])),
      AtValidate (Inr (JObj [(''model'', JStr ''org/three''), (''filename'', JStr ''c.gguf'')]))) =
     (False,
      \<lparr>in_progress = True, model = JStr ''org/two'', filename = JStr ''b.gguf''\<rparr>,
      Returned (PStream (JStr ''org/two'') (JStr ''b.gguf'')),
      Returned (PReply 409 (JObj [(''status'', JStr ''error''),
        (''error'', JStr ''Download already in progress: org/two/b.gguf'')]))) \<and>
   proceeds (PStream (JStr ''org/two'') (JStr ''b.gguf'')) \<noteq>
   proceeds (PReply 409 (JObj [(''status'', JStr ''error''),
        (''error'', JStr ''Download already in progress: org/two/b.gguf'')]))"
proof -
  have a: "valid_pull (JObj [(''model'', JStr ''org/two''), (''filename'', JStr ''b.gguf'')])"
    by (simp add: valid_pull_def get_or_def)
  have b: "valid_pull (JObj [(''model'', JStr ''org/three''), (''filename'', JStr ''c.gguf'')])"
    by (simp add: valid_pull_def get_or_def)
  have run: "run_schedule sample_env
     [True, False, True, False, True, True, False, True, True, True, False, False, False, False]
     (False, no_download,
      AtValidate (Inr (JObj [(''model'', JStr ''org/two''), (''filename'', JStr ''b.gguf'')])),
      AtValidate (Inr (JObj [(''model'', JStr ''org/three''), (''filename'', JStr ''c.gguf'')]))) =
     (False,
      \<lparr>in_progress = True, model = JStr ''org/two'', filename = JStr ''b.gguf''\<rparr>,
      Returned (PStream (JStr ''org/two'') (JStr ''b.gguf'')),
      Returned (PReply 409 (JObj [(''status'', JStr ''error''),
        (''error'', JStr ''Download already in progress: org/two/b.gguf'')])))"
    by (simp add: run_schedule_def no_download_def get_or_def)
  have busy: "in_progress \<lparr>in_progress = True, model = JStr ''org/one'',
      filename = JStr ''a.gguf''\<rparr>"
    by simp
  have idle: "\<not> in_progress no_download"
    by (simp add: no_download_def)
  note at_busy = pull_conflict [OF a b, of "\<lparr>in_progress = True, model = JStr ''org/one'',
        filename = JStr ''a.gguf''\<rparr>" sample_env, THEN conjunct1, rule_format, OF busy]
  note in_turn = pull_conflict [OF a b, of no_download sample_env,
        THEN conjunct2, THEN conjunct1, rule_format, OF idle]
  note interleaved = pull_conflict [OF a b, of no_download sample_env
        "[True, False, True, False, True, True, False, True, True, True, False, False, False,
          False]"
        False "\<lparr>in_progress = True, model = JStr ''org/two'', filename = JStr ''b.gguf''\<rparr>"
        "PStream (JStr ''org/two'') (JStr ''b.gguf'')"
        "PReply 409 (JObj [(''status'', JStr ''error''),
          (''error'', JStr ''Download already in progress: org/two/b.gguf'')])",
        THEN conjunct2, THEN conjunct2, THEN conjunct1, rule_format, OF conjI [OF idle run],
        THEN conjunct1]
  from at_busy have "pull_model sample_env
     (Inr (JObj [(''model'', JStr ''org/two''), (''filename'', JStr ''b.gguf'')]))
     \<lparr>in_progress = True, model = JStr ''org/one'', filename = JStr ''a.gguf''\<rparr> =
     (PReply 409 (JObj [(''status'', JStr ''error''),
        (''error'', JStr ''Download already in progress: org/one/a.gguf'')]),
      \<lparr>in_progress = True, model = JStr ''org/one'', filename = JStr ''a.gguf''\<rparr>)"
    by simp
  with in_turn run interleaved show ?thesis
    by blast
qed

subsection \<open>C4: the chat envelope\<close>

text \<open>
  Claim C4. In \<^verbatim>\<open>proxy-wrapper.py\<close>, for a request whose \<^verbatim>\<open>messages\<close> hold chat
  messages and whose \<^verbatim>\<open>stream\<close> is absent or false, when the backend answers the
  translated request with a body \<open>{response, prompt_eval_count, eval_count}\<close>, the reply
  is the envelope with object \<open>chat.completion\<close>, the backend's response as
  \<open>choices[0].message.content\<close>, role \<open>assistant\<close>, finish reason \<open>stop\<close> and
  \<open>usage.total_tokens = prompt_eval_count + eval_count\<close>; it carries the backend's status
  code. The scenario of the specification (counts 3 and 2, response \<open>hello\<close>) is the
  concrete run that follows the theorem.
\<close>

theorem chat_completion_envelope:
  assumes "map_of d ''messages'' = Some (JArr ms)"
    and "list_all2 chat_message ms rcs"
    and "\<not> truthy (get_or d ''stream'' (JBool False))"
    and "post (JObj
           [(''model'', get_or d ''model'' (JStr ''phi3-lora'')),
            (''prompt'', JStr (str_join nl (map chat_line rcs))),
            (''stream'', get_or d ''stream'' (JBool False)),
            (''temperature'', get_or d ''temperature'' (JFloat 0.7)),
            (''max_tokens'', get_or d ''max_tokens'' (JInt 512)),
            (''top_p'', get_or d ''top_p'' (JFloat 1.0)),
            (''frequency_penalty'', get_or d ''frequency_penalty'' (JFloat 0.0)),
            (''presence_penalty'', get_or d ''presence_penalty'' (JFloat 0.0))]) False = Inr resp"
    and "json_body resp = Inr (JObj r)"
    and "map_of r ''response'' = Some (JStr text)"
    and "map_of r ''prompt_eval_count'' = Some (JInt pc)"
    and "map_of r ''eval_count'' = Some (JInt ec)"
  shows "wrapper_v1_completions env post (Inr (JObj d)) =
     Reply (status_code resp) (JObj
       [(''id'', JStr (''chatcmpl-'' @ py_str env (JInt (hash_val env (JStr text))))),
        (''object'', JStr ''chat.completion''),
        (''created'', JInt (now env)),
        (''model'', get_or d ''model'' (JStr ''phi3-lora'')),
        (''choices'', JArr [JObj
           [(''index'', JInt 0),
            (''message'', JObj [(''role'', JStr ''assistant''), (''content'', JStr text)]),
            (''finish_reason'', JStr ''stop'')]]),
        (''usage'', JObj
           [(''prompt_tokens'', JInt pc),
            (''completion_tokens'', JInt ec),
            (''total_tokens'', JInt (pc + ec))])])"
proof -
  have prompt: "extract_prompt env (JObj d) = Inr (JStr (str_join nl (map chat_line rcs)))"
    using assms(1,2) by (rule extract_prompt_chat)
  have env: "chat_envelope env (JObj d) (JObj r) = Inr (JObj
       [(''id'', JStr (''chatcmpl-'' @ py_str env (JInt (hash_val env (JStr text))))),
        (''object'', JStr ''chat.completion''),
        (''created'', JInt (now env)),
        (''model'', get_or d ''model'' (JStr ''phi3-lora'')),
        (''choices'', JArr [JObj
           [(''index'', JInt 0),
            (''message'', JObj [(''role'', JStr ''assistant''), (''content'', JStr text)]),
            (''finish_reason'', JStr ''stop'')]]),
        (''usage'', JObj
           [(''prompt_tokens'', JInt pc),
            (''completion_tokens'', JInt ec),
            (''total_tokens'', JInt (pc + ec))])])"
    using assms(6,7,8) by (rule chat_envelope_result)
  have stream: "get_or [(''model'', get_or d ''model'' (JStr ''phi3-lora'')),
            (''prompt'', JStr (str_join nl (map chat_line rcs))),
            (''stream'', get_or d ''stream'' (JBool False)),
            (''temperature'', get_or d ''temperature'' (JFloat 0.7)),
            (''max_tokens'', get_or d ''max_tokens'' (JInt 512)),
            (''top_p'', get_or d ''top_p'' (JFloat 1.0)),
            (''frequency_penalty'', get_or d ''frequency_penalty'' (JFloat 0.0)),
            (''presence_penalty'', get_or d ''presence_penalty'' (JFloat 0.0))] ''stream'' JNull
        = get_or d ''stream'' (JBool False)"
    by (simp add: get_or_def)
  show ?thesis
    unfolding wrapper_v1_completions_def
    using assms(1,3,4,5) stream env
    by (simp add: bind_exn_def prompt wrapper_shimmy_request_obj)
qed

theorem chat_completion_envelope_witness:
  "wrapper_v1_completions sample_env
     (\<lambda>payload flag. Inr (buffered 200 (JObj
        [(''response'', JStr ''hello''), (''prompt_eval_count'', JInt 3),
         (''eval_count'', JInt 2)])))
     (Inr (JObj [(''messages'', JArr [JObj [(''role'', JStr ''user''), (''content'', JStr ''hi'')]]),
                 (''stream'', JBool False)])) =
   Reply 200 (JObj
       [(''id'', JStr ''chatcmpl-?''),
        (''object'', JStr ''chat.completion''),
        (''created'', JInt 1700000000),
        (''model'', JStr ''phi3-lora''),
        (''choices'', JArr [JObj
           [(''index'', JInt 0),
            (''message'', JObj [(''role'', JStr ''assistant''), (''content'', JStr ''hello'')]),
            (''finish_reason'', JStr ''stop'')]]),
        (''usage'', JObj
           [(''prompt_tokens'', JInt 3),
            (''completion_tokens'', JInt 2),
            (''total_tokens'', JInt 5)])])"
  using chat_completion_envelope [of
      "[(''messages'', JArr [JObj [(''role'', JStr ''user''), (''content'', JStr ''hi'')]]),
        (''stream'', JBool False)]"
      "[JObj [(''role'', JStr ''user''), (''content'', JStr ''hi'')]]"
      "[(''user'', ''hi'')]"
      "(\<lambda>payload flag. Inr (buffered 200 (JObj
        [(''response'', JStr ''hello''), (''prompt_eval_count'', JInt 3),
         (''eval_count'', JInt 2)])))"
      "buffered 200 (JObj
        [(''response'', JStr ''hello''), (''prompt_eval_count'', JInt 3),
         (''eval_count'', JInt 2)])"
      "[(''response'', JStr ''hello''), (''prompt_eval_count'', JInt 3),
         (''eval_count'', JInt 2)]"
      "''hello''" 3 2 sample_env]
  by (simp add: chat_message_def get_or_def buffered_def sample_env_def)

subsection \<open>C5: an artifact without the magic bytes\<close>

text \<open>
  Claim C5. When the fetch has produced a file whose first four bytes are neither
  \<open>GGUF\<close> nor \<open>GGML\<close>, the generator calls \<^verbatim>\<open>os.remove\<close> on the fetched path, its
  last event is an error event (the validation message, or the failure message when
  \<^verbatim>\<open>os.remove\<close> itself raises), it yields no complete event and it never calls the
  discovery.
\<close>

theorem invalid_artifact_removed:
  assumes "os_makedirs w = None"
    and "hf_hub_download w m f = Inr path"
    and "file_bytes w path = Inr content"
    and "take 4 content \<noteq> ''GGUF''"
    and "take 4 content \<noteq> ''GGML''"
  shows "actions (pull_model_generate w m f st) =
           [Makedirs, Download m f, OpenRead path, Remove path] \<and>
         events (pull_model_generate w m f st) =
           [Starting m f,
            (case os_remove w path of
               None \<Rightarrow> Error ''Downloaded file is not a valid GGUF/GGML model''
             | Some e \<Rightarrow> failure_event e)] \<and>
         is_error (last (events (pull_model_generate w m f st))) \<and>
         filter is_complete (events (pull_model_generate w m f st)) = [] \<and>
         Discover \<notin> set (actions (pull_model_generate w m f st))"
proof -
  have bad: "\<not> check_gguf_file w path"
    using assms(3,4,5) by (rule check_gguf_file_bad_magic)
  have run: "pull_model_generate_try w m f =
     (os_remove w path,
      Starting m f # (case os_remove w path of
                        None \<Rightarrow> [Error ''Downloaded file is not a valid GGUF/GGML model'']
                      | Some e \<Rightarrow> []),
      [Makedirs, Download m f, OpenRead path, Remove path])"
    using assms(1,2) bad by (rule generate_try_invalid)
  show ?thesis
    by (cases "os_remove w path")
       (simp_all add: pull_model_generate_def run failure_event_def)
qed

theorem invalid_artifact_removed_witness:
  "actions (pull_model_generate sample_world (JStr ''org/repo'') (JStr ''model.gguf'')
      \<lparr>in_progress = True, model = JStr ''org/repo'', filename = JStr ''model.gguf''\<rparr>) =
     [Makedirs, Download (JStr ''org/repo'') (JStr ''model.gguf''),
      OpenRead ''/models/model.gguf'', Remove ''/models/model.gguf''] \<and>
   events (pull_model_generate sample_world (JStr ''org/repo'') (JStr ''model.gguf'')
      \<lparr>in_progress = True, model = JStr ''org/repo'', filename = JStr ''model.gguf''\<rparr>) =
     [Starting (JStr ''org/repo'') (JStr ''model.gguf''),
      Error ''Downloaded file is not a valid GGUF/GGML model'']"
  using invalid_artifact_removed [of sample_world "JStr ''org/repo''" "JStr ''model.gguf''"
      "''/models/model.gguf''" "''<!DOCTYPE html>''"
      "\<lparr>in_progress = True, model = JStr ''org/repo'', filename = JStr ''model.gguf''\<rparr>"]
  by (simp add: sample_world_def)

subsection \<open>C7: a backend failure inside the raw relay\<close>

text \<open>
  Claim C7 at a backend that refuses the connection with the message
  \<open>Max retries exceeded (Caused by NewConnectionError("Connection refused"))\<close>. The
  generator of \<^verbatim>\<open>v1_generate\<close> (\<^verbatim>\<open>lightweight-proxy.py\<close> 57-70,
  \<^verbatim>\<open>model-downloader-proxy.py\<close> 216-229) ends without an exception and yields exactly
  one final chunk, but the chunk is the message pasted between the quotes of
  \<open>{"error": "..."}\<close> as it is: with the double quotes of the message inside, the line
  is not a JSON object, which the claim says it is. The other routes build the same
  body with \<^verbatim>\<open>jsonify\<close>, which escapes the message.
\<close>

theorem relay_error_chunk_unescaped:
  \<open>v1_generate_generate
      (\<lambda>payload flag. Inl (Exn ConnectionError
         ''Max retries exceeded (Caused by NewConnectionError("Connection refused"))''))
      (JObj [(''stream'', JBool True)]) =
     \<lparr>chunks =
        [''{"error": "Max retries exceeded (Caused by NewConnectionError("Connection refused"))"}''
         @ nl],
      raised = None\<rparr> \<and>
   \<not> is_error_object
      (''{"error": "Max retries exceeded (Caused by NewConnectionError("Connection refused"))"}''
       @ nl)\<close>
  by (simp add: relay_output is_error_object_def)

theorem relay_error_chunk_unescaped_witness:
  \<open>chunks (v1_generate_generate
      (\<lambda>payload flag. Inl (Exn ConnectionError
         ''Max retries exceeded (Caused by NewConnectionError("Connection refused"))''))
      (JObj [(''stream'', JBool True)])) =
     [''{"error": "Max retries exceeded (Caused by NewConnectionError("Connection refused"))"}''
      @ nl] \<and>
   list_all is_error_object (chunks (v1_generate_generate
      (\<lambda>payload flag. Inl (Exn ConnectionError
         ''Max retries exceeded (Caused by NewConnectionError("Connection refused"))''))
      (JObj [(''stream'', JBool True)]))) = False\<close>
  using relay_error_chunk_unescaped by simp

subsection \<open>C6: the translated request and its defaults\<close>

text \<open>
  Claim C6, as stated, fails on \<^verbatim>\<open>lightweight-proxy.py\<close> and
  \<^verbatim>\<open>model-downloader-proxy.py\<close>: their \<^verbatim>\<open>shimmy_request\<close> has five fields, and for the
  empty request \<open>{}\<close> it carries no \<open>top_p\<close>, \<open>frequency_penalty\<close> or
  \<open>presence_penalty\<close> at all, so none of the three defaults.
\<close>

theorem raw_request_lacks_top_p:
  "shimmy_request sample_env (JObj []) (JStr []) =
     Inr [(''model'', JStr []), (''prompt'', JStr []), (''stream'', JBool False),
          (''temperature'', JFloat 0.7), (''max_tokens'', JInt 512)] \<and>
   field_of (shimmy_request sample_env (JObj []) (JStr [])) ''top_p'' \<noteq> Some (JFloat 1.0) \<and>
   field_of (shimmy_request sample_env (JObj []) (JStr [])) ''frequency_penalty''
     \<noteq> Some (JFloat 0.0) \<and>
   field_of (shimmy_request sample_env (JObj []) (JStr [])) ''presence_penalty''
     \<noteq> Some (JFloat 0.0)"
  by (simp add: shimmy_request_obj field_of_def get_or_def)

text \<open>
  Claim C6, amended. For every request body that is a JSON object and every prompt, the
  translation of the fields never fails. In \<^verbatim>\<open>proxy-wrapper.py\<close> the native request
  carries each sampling parameter with the value of the request, or its documented
  default when absent (temperature 0.7, max_tokens 512, top_p 1.0, frequency_penalty
  0.0, presence_penalty 0.0). In \<^verbatim>\<open>lightweight-proxy.py\<close> and
  \<^verbatim>\<open>model-downloader-proxy.py\<close> this holds for temperature and max_tokens only, and the
  native request has no top_p, frequency_penalty or presence_penalty field. All variants
  carry the prompt, stream (default false) and model (default \<open>phi3-lora\<close> in
  \<^verbatim>\<open>proxy-wrapper.py\<close>, the empty string in the other two).
\<close>

theorem native_request_fields:
  "(map_of documented_defaults k = Some dflt \<longrightarrow>
      field_of (wrapper_shimmy_request env (JObj d) p) k =
        Some (case map_of d k of None \<Rightarrow> dflt | Some v \<Rightarrow> v)) \<and>
   ((k = ''temperature'' \<or> k = ''max_tokens'') \<and> map_of documented_defaults k = Some dflt \<longrightarrow>
      field_of (shimmy_request env (JObj d) p) k =
        Some (case map_of d k of None \<Rightarrow> dflt | Some v \<Rightarrow> v)) \<and>
   field_of (shimmy_request env (JObj d) p) ''top_p'' = None \<and>
   field_of (shimmy_request env (JObj d) p) ''frequency_penalty'' = None \<and>
   field_of (shimmy_request env (JObj d) p) ''presence_penalty'' = None \<and>
   field_of (wrapper_shimmy_request env (JObj d) p) ''model'' =
     Some (case map_of d ''model'' of None \<Rightarrow> JStr ''phi3-lora'' | Some v \<Rightarrow> v) \<and>
   field_of (shimmy_request env (JObj d) p) ''model'' =
     Some (case map_of d ''model'' of None \<Rightarrow> JStr [] | Some v \<Rightarrow> v) \<and>
   field_of (wrapper_shimmy_request env (JObj d) p) ''stream'' =
     Some (case map_of d ''stream'' of None \<Rightarrow> JBool False | Some v \<Rightarrow> v) \<and>
   field_of (shimmy_request env (JObj d) p) ''stream'' =
     Some (case map_of d ''stream'' of None \<Rightarrow> JBool False | Some v \<Rightarrow> v) \<and>
   field_of (wrapper_shimmy_request env (JObj d) p) ''prompt'' = Some p \<and>
   field_of (shimmy_request env (JObj d) p) ''prompt'' = Some p"
proof -
  have w: "map_of documented_defaults k = Some dflt \<Longrightarrow>
      field_of (wrapper_shimmy_request env (JObj d) p) k =
        Some (case map_of d k of None \<Rightarrow> dflt | Some v \<Rightarrow> v)"
    by (auto simp add: documented_defaults_def wrapper_shimmy_request_obj field_of_def
        get_or_def split: if_splits)
  have r: "(k = ''temperature'' \<or> k = ''max_tokens'') \<and>
      map_of documented_defaults k = Some dflt \<Longrightarrow>
      field_of (shimmy_request env (JObj d) p) k =
        Some (case map_of d k of None \<Rightarrow> dflt | Some v \<Rightarrow> v)"
    by (auto simp add: documented_defaults_def shimmy_request_obj field_of_def get_or_def)
  have rest: "field_of (shimmy_request env (JObj d) p) ''top_p'' = None"
    "field_of (shimmy_request env (JObj d) p) ''frequency_penalty'' = None"
    "field_of (shimmy_request env (JObj d) p) ''presence_penalty'' = None"
    "field_of (wrapper_shimmy_request env (JObj d) p) ''model'' =
       Some (case map_of d ''model'' of None \<Rightarrow> JStr ''phi3-lora'' | Some v \<Rightarrow> v)"
    "field_of (shimmy_request env (JObj d) p) ''model'' =
       Some (case map_of d ''model'' of None \<Rightarrow> JStr [] | Some v \<Rightarrow> v)"
    "field_of (wrapper_shimmy_request env (JObj d) p) ''stream'' =
       Some (case map_of d ''stream'' of None \<Rightarrow> JBool False | Some v \<Rightarrow> v)"
    "field_of (shimmy_request env (JObj d) p) ''stream'' =
       Some (case map_of d ''stream'' of None \<Rightarrow> JBool False | Some v \<Rightarrow> v)"
    "field_of (wrapper_shimmy_request env (JObj d) p) ''prompt'' = Some p"
    "field_of (shimmy_request env (JObj d) p) ''prompt'' = Some p"
    by (simp_all add: wrapper_shimmy_request_obj shimmy_request_obj field_of_def get_or_def)
  from w r rest show ?thesis by blast
qed

theorem native_request_fields_witness:
  "field_of (wrapper_shimmy_request sample_env (JObj []) (JStr ''hi'')) ''top_p''
     = Some (JFloat 1.0) \<and>
   field_of (shimmy_request sample_env (JObj [(''max_tokens'', JInt 64)]) (JStr ''hi''))
     ''max_tokens'' = Some (JInt 64) \<and>
   field_of (shimmy_request sample_env (JObj []) (JStr ''hi'')) ''temperature''
     = Some (JFloat 0.7) \<and>
   field_of (shimmy_request sample_env (JObj []) (JStr ''hi'')) ''top_p'' = None"
  using native_request_fields [of "''top_p''" "JFloat 1.0" sample_env "[]" "JStr ''hi''"]
    native_request_fields [of "''max_tokens''" "JInt 512" sample_env
      "[(''max_tokens'', JInt 64)]" "JStr ''hi''"]
    native_request_fields [of "''temperature''" "JFloat 0.7" sample_env "[]" "JStr ''hi''"]
  by (simp add: documented_defaults_def)

subsection \<open>C8: health with the backend unreachable\<close>

text \<open>
  Claim C8, as stated, fails on \<^verbatim>\<open>proxy-wrapper.py\<close>: with the connection refused its
  \<^verbatim>\<open>/v1/health\<close> answers 503 with the body \<open>{status: error, message: ...}\<close>, which has
  neither the status \<open>unhealthy\<close> nor an \<open>error\<close> field.
\<close>

theorem wrapper_health_body:
  "wrapper_v1_health (\<lambda>path. Inl (Exn ConnectionError ''Connection refused'')) =
     Reply 503 (JObj [(''status'', JStr ''error''), (''message'', JStr ''Connection refused'')]) \<and>
   wrapper_v1_health (\<lambda>path. Inl (Exn ConnectionError ''Connection refused'')) \<noteq>
     Reply 503 (JObj [(''status'', JStr ''unhealthy''), (''error'', JStr ''Connection refused'')])"
  by (simp add: wrapper_v1_health_def bind_exn_def)

text \<open>
  Claim C8, amended. When the call of the backend's \<^verbatim>\<open>/health\<close> raises a connection
  error or a timeout \<open>e\<close>, \<^verbatim>\<open>/v1/health\<close> answers 503 in every variant; the body is
  \<open>{status: unhealthy, error: str(e)}\<close> in \<^verbatim>\<open>lightweight-proxy.py\<close> and
  \<^verbatim>\<open>model-downloader-proxy.py\<close>, and \<open>{status: error, message: str(e)}\<close> in
  \<^verbatim>\<open>proxy-wrapper.py\<close>.
\<close>

theorem health_unreachable:
  "get ''/health'' = Inl e \<and> (cls e = ConnectionError \<or> cls e = Timeout) \<longrightarrow>
     v1_health get =
       Reply 503 (JObj [(''status'', JStr ''unhealthy''), (''error'', JStr (str_of e))]) \<and>
     wrapper_v1_health get =
       Reply 503 (JObj [(''status'', JStr ''error''), (''message'', JStr (str_of e))])"
  by (cases e) (auto simp add: v1_health_def wrapper_v1_health_def bind_exn_def)

theorem health_unreachable_witness:
  "v1_health (\<lambda>path. Inl (Exn Timeout ''timed out'')) =
     Reply 503 (JObj [(''status'', JStr ''unhealthy''), (''error'', JStr ''timed out'')]) \<and>
   wrapper_v1_health (\<lambda>path. Inl (Exn Timeout ''timed out'')) =
     Reply 503 (JObj [(''status'', JStr ''error''), (''message'', JStr ''timed out'')])"
  using health_unreachable [of "\<lambda>path. Inl (Exn Timeout ''timed out'')" "Exn Timeout ''timed out''"]
  by simp

subsection \<open>C9: a pull request with a bad body\<close>

text \<open>
  Claim C9 at the body \<open>[1]\<close>, a JSON array, received while the download of
  \<open>org/repo\<close>, \<open>model.gguf\<close> is in progress: \<^verbatim>\<open>data.get\<close> raises, the outer
  \<^verbatim>\<open>except Exception\<close> clause of \<^verbatim>\<open>pull_model\<close> answers 500 and resets the job of the
  download in flight. The claim asks for 400 and an unchanged job, which is what the
  two explicit checks give for an empty body and for missing fields
  (\<open>pull_model_missing_fields\<close>).
\<close>

theorem pull_non_object_body_resets_job:
  "pull_model sample_env (Inr (JArr [JInt 1]))
     \<lparr>in_progress = True, model = JStr ''org/repo'', filename = JStr ''model.gguf''\<rparr> =
   (PReply 500 (JObj [(''status'', JStr ''error''), (''error'', JStr ''fault'')]),
    \<lparr>in_progress = False, model = JNull, filename = JNull\<rparr>)"
  by (simp add: pull_model_def pull_model_except_def sample_env_def)

theorem pull_non_object_body_resets_job_witness:
  "fst (pull_model sample_env (Inr (JArr [JInt 1]))
     \<lparr>in_progress = True, model = JStr ''org/repo'', filename = JStr ''model.gguf''\<rparr>) =
     PReply 500 (JObj [(''status'', JStr ''error''), (''error'', JStr ''fault'')]) \<and>
   in_progress (snd (pull_model sample_env (Inr (JArr [JInt 1]))
     \<lparr>in_progress = True, model = JStr ''org/repo'', filename = JStr ''model.gguf''\<rparr>)) = False"
  using pull_non_object_body_resets_job by simp

subsection \<open>C10: streaming requested on the raw-JSON completions routes\<close>

text \<open>
  Claim C10. In \<^verbatim>\<open>lightweight-proxy.py\<close> and \<^verbatim>\<open>model-downloader-proxy.py\<close>, a
  completions request with \<open>stream = true\<close> is forwarded with \<open>stream: true\<close> in the
  payload by one buffered call (the \<^verbatim>\<open>stream\<close> flag of \<^verbatim>\<open>requests.post\<close> not set),
  whose body is parsed as one JSON document and returned with the backend's status
  code. For every request the route never answers with a streamed response, and its
  answer does not depend on what a streamed backend call would give.
\<close>

theorem completions_stream_is_buffered:
  "(map_of d ''stream'' = Some (JBool True) \<longrightarrow>
      v1_completions env post (Inr (JObj d)) =
        (case extract_prompt env (JObj d) of
           Inl e \<Rightarrow> error_reply e
         | Inr p \<Rightarrow>
             (case post (JObj
                     [(''model'', get_or d ''model'' (JStr [])),
                      (''prompt'', p),
                      (''stream'', JBool True),
                      (''temperature'', get_or d ''temperature'' (JFloat 0.7)),
                      (''max_tokens'', get_or d ''max_tokens'' (JInt 512))]) False of
                Inl e \<Rightarrow> error_reply e
              | Inr resp \<Rightarrow>
                  (case json_body resp of
                     Inl e \<Rightarrow> error_reply e
                   | Inr body \<Rightarrow> Reply (status_code resp) body)))) \<and>
   v1_completions env post req \<noteq> Streamed mt out \<and>
   ((\<forall>payload. post payload False = post' payload False) \<longrightarrow>
      v1_completions env post req = v1_completions env post' req)"
proof (intro conjI impI)
  assume s: "map_of d ''stream'' = Some (JBool True)"
  then have g: "get_or d ''stream'' (JBool False) = JBool True"
    by (simp add: get_or_def)
  show "v1_completions env post (Inr (JObj d)) =
        (case extract_prompt env (JObj d) of
           Inl e \<Rightarrow> error_reply e
         | Inr p \<Rightarrow>
             (case post (JObj
                     [(''model'', get_or d ''model'' (JStr [])),
                      (''prompt'', p),
                      (''stream'', JBool True),
                      (''temperature'', get_or d ''temperature'' (JFloat 0.7)),
                      (''max_tokens'', get_or d ''max_tokens'' (JInt 512))]) False of
                Inl e \<Rightarrow> error_reply e
              | Inr resp \<Rightarrow>
                  (case json_body resp of
                     Inl e \<Rightarrow> error_reply e
                   | Inr body \<Rightarrow> Reply (status_code resp) body)))"
    unfolding v1_completions_obj g by (rule refl)
next
  show "v1_completions env post req \<noteq> Streamed mt out"
    by (rule v1_completions_never_streams)
next
  assume "\<forall>payload. post payload False = post' payload False"
  then show "v1_completions env post req = v1_completions env post' req"
    by (rule v1_completions_buffered_only)
qed

theorem completions_stream_is_buffered_witness:
  "v1_completions sample_env
     (\<lambda>payload flag.
        if flag then Inl (Exn OtherException ''streamed call'')
        else Inr (buffered 200 (JObj [(''sent'', payload)])))
     (Inr (JObj [(''prompt'', JStr ''hi''), (''stream'', JBool True)])) =
   Reply 200 (JObj [(''sent'', JObj
     [(''model'', JStr []), (''prompt'', JStr ''hi''), (''stream'', JBool True),
      (''temperature'', JFloat 0.7), (''max_tokens'', JInt 512)])])"
  using completions_stream_is_buffered [of
      "[(''prompt'', JStr ''hi''), (''stream'', JBool True)]" sample_env
      "(\<lambda>payload flag.
        if flag then Inl (Exn OtherException ''streamed call'')
        else Inr (buffered 200 (JObj [(''sent'', payload)])))"]
    extract_prompt_plain [of "[(''prompt'', JStr ''hi''), (''stream'', JBool True)]" sample_env]
  by (simp add: get_or_def buffered_def)

end
